theory Spec2Isabelle
  imports Complex_Main "HOL-Library.Monad_Syntax"
begin

section \<open>Numbers and arrays\<close>

text \<open>
  The program computes with numpy arrays of IEEE doubles. The embedding idealises a double
  as a real number: rounding and overflow are not modelled. numpy does not raise when an
  operation leaves the finite numbers (division by zero, the logarithm of a non-positive
  number, a negative base with a fractional exponent); it carries on with \<open>inf\<close> or
  \<open>nan\<close>. Such a result has no real value, so every operation that can produce one
  is partial here: it returns \<open>None\<close>, and the computation around it has no value in
  the model from there on. A 1-d array is a list.
\<close>

definition c_light :: real where
  \<comment> \<open>\<^verbatim>\<open>c = 3e5\<close>, the speed of light in km/s\<close>
  "c_light = 300000"

definition fdiv :: "real \<Rightarrow> real \<Rightarrow> real option" where
  "fdiv x y = (if y = 0 then None else Some (x / y))"

definition fsqrt :: "real \<Rightarrow> real option" where
  "fsqrt x = (if x < 0 then None else Some (sqrt x))"

definition flog :: "real \<Rightarrow> real option" where
  "flog x = (if 0 < x then Some (ln x) else None)"

definition fpow :: "real \<Rightarrow> real \<Rightarrow> real option" where
  \<comment> \<open>\<^verbatim>\<open>x ** y\<close> on doubles (C's \<^verbatim>\<open>pow\<close>)\<close>
  "fpow x y =
     (if y = 0 then Some 1
      else if 0 < x then Some (x powr y)
      else if x = 0 then (if 0 < y then Some 0 else None)
      else if y \<in> \<int> then Some ((if even \<lfloor>y\<rfloor> then 1 else - 1) * (\<bar>x\<bar> powr y))
      else None)"

definition vdiv :: "real list \<Rightarrow> real \<Rightarrow> real list option" where
  \<comment> \<open>array divided by a scalar, element by element\<close>
  "vdiv xs s = those (map (\<lambda>x. fdiv x s) xs)"

definition vpow :: "real list \<Rightarrow> real \<Rightarrow> real list option" where
  \<comment> \<open>array raised to a scalar power, element by element\<close>
  "vpow xs e = those (map (\<lambda>x. fpow x e) xs)"

definition dot :: "real list \<Rightarrow> real list \<Rightarrow> real" where
  \<comment> \<open>\<^verbatim>\<open>np.dot\<close> of two 1-d arrays of one length\<close>
  "dot xs ys = sum_list (map2 (*) xs ys)"

definition erf :: "real \<Rightarrow> real" where
  \<comment> \<open>\<^verbatim>\<open>scipy.special.erf\<close>, by its power series\<close>
  "erf x = 2 / sqrt pi * (\<Sum>n. (- 1) ^ n * x ^ (2 * n + 1) / (fact n * real (2 * n + 1)))"


section \<open>The kernel library (model.py, lines 12 to 80)\<close>

text \<open>
  Every kernel function builds an array \<open>IP_k\<close> over the velocity grid and ends with
  \<^verbatim>\<open>IP_k /= IP_k.sum(); return IP_k\<close>. The functions \<open>*_raw\<close> are the bodies up to
  that statement, \<open>normalise\<close> is the statement.
\<close>

definition normalise :: "real list \<Rightarrow> real list option" where
  "normalise IP_k = vdiv IP_k (sum_list IP_k)"

definition IP_raw :: "real list \<Rightarrow> real \<Rightarrow> real list option" where
  "IP_raw vk s = do {
     u \<leftarrow> vdiv vk s;
     Some (map (\<lambda>x. exp (- (x ^ 2) / 2)) u) }"

definition IP :: "real list \<Rightarrow> real \<Rightarrow> real list option" where
  "IP vk s = IP_raw vk s \<bind> normalise"

definition IP_sg_raw :: "real list \<Rightarrow> real \<Rightarrow> real \<Rightarrow> real list option" where
  "IP_sg_raw vk s e = do {
     u \<leftarrow> vdiv vk s;
     p \<leftarrow> vpow (map abs u) e;
     Some (map (\<lambda>x. exp (- x)) p) }"

definition IP_sg :: "real list \<Rightarrow> real \<Rightarrow> real \<Rightarrow> real list option" where
  "IP_sg vk s e = IP_sg_raw vk s e \<bind> normalise"

definition IP_ag_raw :: "real list \<Rightarrow> real \<Rightarrow> real \<Rightarrow> real list option" where
  "IP_ag_raw vk s a = do {
     r \<leftarrow> fsqrt (1 + a ^ 2);
     q \<leftarrow> fdiv a r;
     let b = q * sqrt (2 / pi);
     r' \<leftarrow> fsqrt (1 - b ^ 2);
     ss \<leftarrow> fdiv s r';
     vk' \<leftarrow> vdiv (map (\<lambda>v. v + ss * b) vk) ss;
     Some (map (\<lambda>x. exp (- (x ^ 2) / 2) * (1 + erf (a / sqrt 2 * x))) vk') }"

definition IP_ag :: "real list \<Rightarrow> real \<Rightarrow> real \<Rightarrow> real list option" where
  "IP_ag vk s a = IP_ag_raw vk s a \<bind> normalise"

definition IP_bg_raw :: "real list \<Rightarrow> real \<Rightarrow> real \<Rightarrow> real list option" where
  "IP_bg_raw vk s1 s2 = do {
     xc \<leftarrow> fdiv (sqrt (2 / pi) * (- (s1 ^ 2) + s2 ^ 2)) (s1 + s2);
     let vck = map (\<lambda>v. v + xc) vk;
     u \<leftarrow> those (map (\<lambda>v. fdiv v (if v < 0 then s1 else s2)) vck);
     Some (map (\<lambda>x. exp (- 0.5 * x ^ 2)) u) }"

definition IP_bg :: "real list \<Rightarrow> real \<Rightarrow> real \<Rightarrow> real list option" where
  "IP_bg vk s1 s2 = IP_bg_raw vk s1 s2 \<bind> normalise"

definition IP_mcg_raw :: "real list \<Rightarrow> real \<Rightarrow> real \<Rightarrow> real list option" where
  "IP_mcg_raw vk s0 a1 = do {
     let s1 = 4 * s0;
     let a1' = a1 / 10;
     u0 \<leftarrow> vdiv vk s0;
     u1 \<leftarrow> vdiv vk s1;
     let IP_k = map2 (\<lambda>x y. exp (- (x ^ 2)) + a1' * exp (- (y ^ 2))) u0 u1;
     Some (map (max 0) IP_k) }"

definition IP_mcg :: "real list \<Rightarrow> real \<Rightarrow> real \<Rightarrow> real list option" where
  "IP_mcg vk s0 a1 = IP_mcg_raw vk s0 a1 \<bind> normalise"

definition IP_mg_raw :: "real list \<Rightarrow> real list \<Rightarrow> real list option" where
  "IP_mg_raw vk a = do {
     let s = 0.9;
     let dx = s;
     let na = length a + 1;
     let mid = length a div 2;
     let a' = map tanh a;
     let a'' = take mid a' @ [1] @ drop mid a';
     let xl = map real [0..<na];
     xm \<leftarrow> fdiv (dot xl a'') (sum_list a'');
     let xc = map (\<lambda>l. dx * (l - xm)) xl;
     Some (map (\<lambda>v. dot a'' (map (\<lambda>x. exp (- (((v - x) / s) ^ 2))) xc)) vk) }"

definition IP_mg :: "real list \<Rightarrow> real list \<Rightarrow> real list option" where
  "IP_mg vk a = IP_mg_raw vk a \<bind> normalise"


section \<open>Python exceptions and numpy helpers\<close>

text \<open>
  A computation that can raise returns \<open>error + 'a\<close>. \<open>ValueError\<close>, \<open>TypeError\<close>,
  \<open>IndexError\<close>, \<open>AttributeError\<close> and \<open>RuntimeError\<close> are the Python exceptions. \<open>NonFinite\<close> and
  \<open>Unspecified\<close> are not exceptions: they mark a point where Python carries on with
  \<open>inf\<close>/\<open>nan\<close>, or with numbers numpy documents as meaningless
  (\<^verbatim>\<open>np.interp\<close> on sample points that are not increasing), and the model stops.
\<close>

datatype error =
  ValueError | TypeError | IndexError | AttributeError | RuntimeError | NonFinite | Unspecified

definition bind_r :: "error + 'a \<Rightarrow> ('a \<Rightarrow> error + 'b) \<Rightarrow> error + 'b" where
  "bind_r r f = (case r of Inl e \<Rightarrow> Inl e | Inr v \<Rightarrow> f v)"

definition fin :: "'a option \<Rightarrow> error + 'a" where
  "fin r = (case r of None \<Rightarrow> Inl NonFinite | Some v \<Rightarrow> Inr v)"

definition raises :: "error + 'a \<Rightarrow> bool" where
  "raises r = (r = Inl ValueError \<or> r = Inl TypeError \<or> r = Inl IndexError \<or>
               r = Inl AttributeError \<or> r = Inl RuntimeError)"

definition py_index :: "int \<Rightarrow> int \<Rightarrow> int" where
  \<comment> \<open>how a slice bound \<open>i\<close> is read against a sequence of length \<open>n\<close>\<close>
  "py_index n i = (if i < 0 then max 0 (n + i) else min i n)"

definition py_slice :: "'a list \<Rightarrow> int \<Rightarrow> int \<Rightarrow> 'a list" where
  \<comment> \<open>\<^verbatim>\<open>xs[i:j]\<close>\<close>
  "py_slice xs i j =
     (let n = int (length xs); a = py_index n i; b = py_index n j
      in take (nat (b - a)) (drop (nat a) xs))"

definition arange :: "int \<Rightarrow> int \<Rightarrow> int list" where
  \<comment> \<open>\<^verbatim>\<open>np.arange(lo, hi)\<close> on integers\<close>
  "arange lo hi = [lo..hi - 1]"

definition np_mul :: "real list \<Rightarrow> real list \<Rightarrow> error + real list" where
  \<comment> \<open>\<^verbatim>\<open>xs * ys\<close> with numpy's broadcasting of 1-d arrays\<close>
  "np_mul xs ys =
     (if length xs = length ys then Inr (map2 (*) xs ys)
      else if length xs = 1 then Inr (map (\<lambda>y. hd xs * y) ys)
      else if length ys = 1 then Inr (map (\<lambda>x. x * hd ys) xs)
      else Inl ValueError)"

definition np_imul :: "real list \<Rightarrow> real list \<Rightarrow> error + real list" where
  \<comment> \<open>\<^verbatim>\<open>xs *= ys\<close>: the result has the shape of \<open>xs\<close>\<close>
  "np_imul xs ys =
     (if length ys = length xs then Inr (map2 (*) xs ys)
      else if length ys = 1 then Inr (map (\<lambda>x. x * hd ys) xs)
      else Inl ValueError)"

definition poly :: "real \<Rightarrow> real list \<Rightarrow> real" where
  \<comment> \<open>\<^verbatim>\<open>np.polyval(a[::-1], x)\<close>: Horner's scheme, highest coefficient first\<close>
  "poly x a = foldl (\<lambda>y pv. y * x + pv) 0 (rev a)"

definition interp1 :: "real list \<Rightarrow> real list \<Rightarrow> real \<Rightarrow> real" where
  \<comment> \<open>one point of \<^verbatim>\<open>np.interp\<close>, for increasing sample points \<open>xp\<close> (not empty)\<close>
  "interp1 xp fp x =
     (if last xp < x then last fp
      else if x < hd xp then hd fp
      else if length xp = 1 then hd fp
      else let j = length (takeWhile (\<lambda>p. p \<le> x) xp) - 1 in
        if j = length xp - 1 then fp ! j
        else if xp ! j = x then fp ! j
        else (fp ! (j + 1) - fp ! j) / (xp ! (j + 1) - xp ! j) * (x - xp ! j) + fp ! j)"

definition np_interp :: "real list \<Rightarrow> real list \<Rightarrow> real list \<Rightarrow> error + real list" where
  \<comment> \<open>\<^verbatim>\<open>np.interp(x, xp, fp)\<close>\<close>
  "np_interp x xp fp =
     (if xp = [] then Inl ValueError
      else if length fp \<noteq> length xp then Inl ValueError
      else if \<not> sorted xp then Inl Unspecified
      else Inr (map (interp1 xp fp) x))"

definition np_convolve_valid :: "real list \<Rightarrow> real list \<Rightarrow> error + real list" where
  \<comment> \<open>\<^verbatim>\<open>np.convolve(a, v, mode='valid')\<close>: the longer array is slid over the shorter\<close>
  "np_convolve_valid a v =
     (let a' = (if length a < length v then v else a);
          v' = (if length a < length v then a else v)
      in if a' = [] then Inl ValueError
         else if v' = [] then Inl ValueError
         else Inr (map (\<lambda>i. dot (take (length v') (drop i a')) (rev v'))
                     [0..<length a' - length v' + 1]))"


section \<open>The forward model (model.py, class model)\<close>

text \<open>
  The object's attributes are the fields of a record, each prefixed \<open>self_\<close>. The
  callables handed to the constructor (the stellar template \<open>S_star\<close>, the kernel
  function \<open>IP\<close>, the continuum function \<open>func_norm\<close>) are parameters: functions on
  arrays that may raise.
\<close>

record model =
  self_xcen :: real
  self_S_star :: "real list \<Rightarrow> error + real list"
  self_lnwave_j :: "real list"
  self_spec_cell_j :: "real list"
  self_fluxes_molec :: "real list list"
  self_IP :: "real list \<Rightarrow> real list \<Rightarrow> error + real list"
  self_dx :: real
  self_IP_hs :: int
  self_vk :: "real list"
  self_lnwave_j_eff :: "real list"
  self_func_norm :: "real list \<Rightarrow> real list \<Rightarrow> error + real list"

definition init ::
  "(real list \<Rightarrow> error + real list) \<Rightarrow> real list \<Rightarrow> real list \<Rightarrow> real list list \<Rightarrow>
   (real list \<Rightarrow> real list \<Rightarrow> error + real list) \<Rightarrow>
   (real list \<Rightarrow> real list \<Rightarrow> error + real list) \<Rightarrow> int \<Rightarrow> real \<Rightarrow> error + model" where
  \<comment> \<open>\<^verbatim>\<open>model.__init__(S_star, lnwave_j, spec_cell_j, fluxes_molec, IP, func_norm, IP_hs, xcen)\<close>\<close>
  "init S_star lnwave_j spec_cell_j fluxes_molec IP_f func_norm IP_hs xcen =
     (case lnwave_j of
        x0 # x1 # _ \<Rightarrow>
          let dx = x1 - x0 in
          Inr \<lparr> self_xcen = xcen, self_S_star = S_star, self_lnwave_j = lnwave_j,
                self_spec_cell_j = spec_cell_j, self_fluxes_molec = fluxes_molec,
                self_IP = IP_f, self_dx = dx, self_IP_hs = IP_hs,
                self_vk = map (\<lambda>k. real_of_int k * dx * c_light) (arange (- IP_hs) (IP_hs + 1)),
                self_lnwave_j_eff = py_slice lnwave_j IP_hs (- IP_hs),
                self_func_norm = func_norm \<rparr>
      | _ \<Rightarrow> Inl IndexError)"

fun absorb :: "real list \<Rightarrow> (real \<times> real list) list \<Rightarrow> error + real list" where
  \<comment> \<open>the loop \<^verbatim>\<open>for coeff_mol, flux_mol in zip(...): flux_atm *= flux_mol**np.abs(coeff_mol)\<close>\<close>
  "absorb flux_atm [] = Inr flux_atm"
| "absorb flux_atm ((coeff_mol, flux_mol) # rest) =
     bind_r (fin (vpow flux_mol \<bar>coeff_mol\<bar>)) (\<lambda>t.
     bind_r (np_imul flux_atm t) (\<lambda>flux_atm'.
     absorb flux_atm' rest))"

definition flux_atm_of :: "model \<Rightarrow> real list \<Rightarrow> error + real list" where
  \<comment> \<open>lines 123 to 129: the combined absorber spectrum (there is at least one template)\<close>
  "flux_atm_of m coeff_atm =
     bind_r (absorb (replicate (length (hd (self_fluxes_molec m))) 1)
               (zip coeff_atm (self_fluxes_molec m))) (\<lambda>flux_atm.
     if length coeff_atm = length (self_fluxes_molec m) + 1 then
       bind_r (fin (flog (1 + last coeff_atm / c_light))) (\<lambda>shift.
       np_interp (self_lnwave_j m) (map (\<lambda>x. x - shift) (self_lnwave_j m)) flux_atm)
     else Inr flux_atm)"

definition spec_gas_of :: "model \<Rightarrow> real list \<Rightarrow> error + real list" where
  \<comment> \<open>lines 119 to 131; \<^verbatim>\<open>1 * self.spec_cell_j\<close> is a new array with the same values\<close>
  "spec_gas_of m coeff_atm =
     (let spec_gas = self_spec_cell_j m in
      if length (self_fluxes_molec m) \<noteq> 0 then
        bind_r (flux_atm_of m coeff_atm) (\<lambda>flux_atm. np_imul spec_gas flux_atm)
      else Inr spec_gas)"

definition index0 :: "real list \<Rightarrow> error + real" where
  \<comment> \<open>\<^verbatim>\<open>xs[0]\<close>\<close>
  "index0 xs = (case xs of [] \<Rightarrow> Inl IndexError | x # _ \<Rightarrow> Inr x)"

definition convolved ::
  "model \<Rightarrow> real list \<Rightarrow> real \<Rightarrow> real list \<Rightarrow> real list \<Rightarrow> error + real list" where
  \<comment> \<open>line 134: the product of template and absorber, convolved with the kernel\<close>
  "convolved m spec_gas rv coeff_ip coeff_bkg =
     bind_r (self_IP m (self_vk m) coeff_ip) (\<lambda>IP_k.
     bind_r (self_S_star m (map (\<lambda>x. x - rv / c_light) (self_lnwave_j m))) (\<lambda>star.
     bind_r (index0 coeff_bkg) (\<lambda>bkg0.
     bind_r (np_mul star (map (\<lambda>g. g + bkg0) spec_gas)) (\<lambda>prod.
     np_convolve_valid IP_k prod))))"

definition Sj_eff_of ::
  "model \<Rightarrow> real \<Rightarrow> real list \<Rightarrow> real list \<Rightarrow> real list \<Rightarrow> error + real list" where
  \<comment> \<open>lines 119 to 134: up to and including the convolution with the kernel\<close>
  "Sj_eff_of m rv coeff_ip coeff_atm coeff_bkg =
     bind_r (spec_gas_of m coeff_atm) (\<lambda>spec_gas.
     convolved m spec_gas rv coeff_ip coeff_bkg)"

definition sampled ::
  "model \<Rightarrow> real list \<Rightarrow> real list \<Rightarrow> real list \<Rightarrow> real list \<Rightarrow> error + real list" where
  \<comment> \<open>lines 138 to 146: the wavelength relation, the sampling to pixels, the normalisation\<close>
  "sampled m Sj_eff pixel coeff_norm coeff_wave =
     bind_r (fin (those (map (\<lambda>p. flog (poly (p - self_xcen m) coeff_wave)) pixel)))
       (\<lambda>lnwave_obs.
     bind_r (np_interp lnwave_obs (self_lnwave_j_eff m) Sj_eff) (\<lambda>Si_eff.
     bind_r (self_func_norm m (map (\<lambda>p. p - self_xcen m) pixel) coeff_norm) (\<lambda>nrm.
     np_mul nrm Si_eff)))"

definition call ::
  "model \<Rightarrow> real list \<Rightarrow> real \<Rightarrow> real list \<Rightarrow> real list \<Rightarrow> real list \<Rightarrow> real list \<Rightarrow> real list
   \<Rightarrow> error + real list" where
  \<comment> \<open>\<^verbatim>\<open>model.__call__(pixel, rv, coeff_norm, coeff_wave, coeff_ip, coeff_atm, coeff_bkg)\<close>\<close>
  "call m pixel rv coeff_norm coeff_wave coeff_ip coeff_atm coeff_bkg =
     bind_r (Sj_eff_of m rv coeff_ip coeff_atm coeff_bkg) (\<lambda>Sj_eff.
     sampled m Sj_eff pixel coeff_norm coeff_wave)"

text \<open>
  The kernel and continuum functions of the module, as the constructor receives them:
  the kernel is called as \<^verbatim>\<open>self.IP(self.vk, *coeff_ip)\<close>, so the coefficients are its
  positional arguments after the grid (the defaults are \<^verbatim>\<open>s=2.2\<close>; more than one
  coefficient is a \<open>TypeError\<close>).
\<close>

definition IP_callable :: "real list \<Rightarrow> real list \<Rightarrow> error + real list" where
  "IP_callable vk coeff_ip =
     (case coeff_ip of
        [] \<Rightarrow> fin (IP vk 2.2)
      | [s] \<Rightarrow> fin (IP vk s)
      | _ \<Rightarrow> Inl TypeError)"

definition poly_callable :: "real list \<Rightarrow> real list \<Rightarrow> error + real list" where
  "poly_callable x a = Inr (map (\<lambda>p. poly p a) x)"

definition flat_template :: "real list \<Rightarrow> error + real list" where
  \<comment> \<open>a stellar template with flux 1 everywhere\<close>
  "flat_template x = Inr (map (\<lambda>_. 1) x)"

definition example_model :: model where
  \<comment> \<open>a small model with two absorber templates, for concrete evaluation\<close>
  "example_model =
     \<lparr> self_xcen = 0, self_S_star = flat_template, self_lnwave_j = [0, 1, 2, 3],
       self_spec_cell_j = [1, 1, 1, 1],
       self_fluxes_molec = [[1, 1 / 2, 1, 1], [1 / 4, 1, 1, 1]],
       self_IP = IP_callable, self_dx = 1, self_IP_hs = 1,
       self_vk = [- c_light, 0, c_light], self_lnwave_j_eff = [1, 2],
       self_func_norm = poly_callable \<rparr>"


section \<open>The fit wrapper (model.py, model.fit)\<close>

text \<open>
  The keyword arguments of \<^verbatim>\<open>fit\<close> are a record: a free and a fixed value for each of
  the six groups (\<open>None\<close> for an RV that is not given), and the weights \<open>sig\<close>.
\<close>

record fit_args =
  par_rv :: "real option"
  par_norm :: "real list"
  par_wave :: "real list"
  par_ip :: "real list"
  par_atm :: "real list"
  par_bkg :: "real list"
  parfix_rv :: "real option"
  parfix_norm :: "real list"
  parfix_wave :: "real list"
  parfix_ip :: "real list"
  parfix_atm :: "real list"
  parfix_bkg :: "real list"
  sig :: "real list"

definition tuple_of :: "real option \<Rightarrow> real list" where
  \<comment> \<open>\<^verbatim>\<open>() if x is None else (x,)\<close>\<close>
  "tuple_of x = (case x of None \<Rightarrow> [] | Some v \<Rightarrow> [v])"

definition p0 :: "fit_args \<Rightarrow> real list" where
  \<comment> \<open>\<^verbatim>\<open>p0=[*par_rv, *par_norm, *par_wave, *par_ip, *par_atm, *par_bkg]\<close>\<close>
  "p0 g = tuple_of (par_rv g) @ par_norm g @ par_wave g @ par_ip g @ par_atm g @ par_bkg g"

definition assemble ::
  "fit_args \<Rightarrow> real list \<Rightarrow>
   real list \<times> real list \<times> real list \<times> real list \<times> real list \<times> real list" where
  \<comment> \<open>the slices \<open>sv\<close>, \<open>sa\<close>, \<open>sb\<close>, \<open>ss\<close>, \<open>st\<close>, \<open>sc\<close> (each a pair of bounds) and the six
      groups \<^verbatim>\<open>params[sv]+parfix_rv, params[sa]+parfix_norm, ...\<close>\<close>
  "assemble g params =
     (let sv = (0, int (length (tuple_of (par_rv g))));
          sa = (snd sv, snd sv + int (length (par_norm g)));
          sb = (snd sa, snd sa + int (length (par_wave g)));
          ss = (snd sb, snd sb + int (length (par_ip g)));
          st = (snd ss, snd ss + int (length (par_atm g)));
          sc = (snd st, snd st + int (length (par_bkg g)))
      in (py_slice params (fst sv) (snd sv) @ tuple_of (parfix_rv g),
          py_slice params (fst sa) (snd sa) @ parfix_norm g,
          py_slice params (fst sb) (snd sb) @ parfix_wave g,
          py_slice params (fst ss) (snd ss) @ parfix_ip g,
          py_slice params (fst st) (snd st) @ parfix_atm g,
          py_slice params (fst sc) (snd sc) @ parfix_bkg g))"

definition S_model :: "model \<Rightarrow> fit_args \<Rightarrow> real list \<Rightarrow> real list \<Rightarrow> error + real list" where
  \<comment> \<open>the closure \<^verbatim>\<open>lambda x, *params: self(x, *params[sv]+parfix_rv, params[sa]+parfix_norm, ...)\<close>.
      The first group is unpacked into positional arguments: with one value it is \<open>rv\<close>;
      with none the five tuples move one parameter to the left (\<open>coeff_bkg\<close> takes its
      default) and \<open>rv\<close> is a tuple, so that \<^verbatim>\<open>rv/c\<close> raises \<open>TypeError\<close> unless
      the statements before it raise first; with two there is one argument too many.\<close>
  "S_model m g x params =
     (case assemble g params of (rvs, nrm, wave, ip, atm, bkg) \<Rightarrow>
        (case rvs of
           [rv] \<Rightarrow> call m x rv nrm wave ip atm bkg
         | [] \<Rightarrow> bind_r (spec_gas_of m bkg) (\<lambda>_.
                 bind_r (self_IP m (self_vk m) atm) (\<lambda>_. Inl TypeError))
         | _ \<Rightarrow> Inl TypeError))"

datatype arg = Num real | Tup "real list"

definition fit ::
  "((real list \<Rightarrow> real list \<Rightarrow> error + real list) \<Rightarrow> real list \<Rightarrow> real list \<Rightarrow> real list \<Rightarrow>
      real list \<Rightarrow> error + real list \<times> real list list) \<Rightarrow>
   model \<Rightarrow> real list \<Rightarrow> real list \<Rightarrow> fit_args \<Rightarrow> error + arg list \<times> real list list" where
  \<comment> \<open>\<^verbatim>\<open>model.fit(pixel, spec_obs, par_rv=..., ..., sig=...)\<close> without plotting options;
      \<open>curve_fit\<close> is scipy's solver, a parameter\<close>
  "fit curve_fit m pixel spec_obs g =
     bind_r (curve_fit (S_model m g) pixel spec_obs (p0 g) (sig g)) (\<lambda>(params, e_params).
     case assemble g params of (rvs, nrm, wave, ip, atm, bkg) \<Rightarrow>
       Inr (map Num rvs @ [Tup nrm, Tup wave, Tup ip, Tup atm, Tup bkg], e_params))"

definition example_fit_args :: fit_args where
  "example_fit_args =
     \<lparr> par_rv = Some 5, par_norm = [1], par_wave = [6000, 1 / 20], par_ip = [],
       par_atm = [1, 1], par_bkg = [], parfix_rv = None, parfix_norm = [],
       parfix_wave = [0, 0], parfix_ip = [11 / 5], parfix_atm = [30], parfix_bkg = [0],
       sig = [] \<rparr>"


section \<open>The orchestrator (viper.py)\<close>



record chunk =
  pix :: "real list"
  f_i :: "real list"
  w_i :: "real list"
  s_obs :: "int \<times> int"
  bg :: "real list"




















text \<open>The chunk loop and the aggregation (lines 184 to 190).\<close>

definition np_mean :: "real option list \<Rightarrow> real option" where
  \<comment> \<open>\<^verbatim>\<open>np.mean\<close>: not a number on an empty array, not finite when an element is not\<close>
  "np_mean xs = do {
     vs \<leftarrow> those xs;
     fdiv (sum_list vs) (real (length vs)) }"

definition np_std :: "real option list \<Rightarrow> real option" where
  \<comment> \<open>\<^verbatim>\<open>np.std\<close>: the root of the mean squared deviation from the mean\<close>
  "np_std xs = do {
     vs \<leftarrow> those xs;
     mu \<leftarrow> np_mean xs;
     ms \<leftarrow> fdiv (sum_list (map (\<lambda>v. (v - mu) ^ 2) vs)) (real (length vs));
     fsqrt ms }"

definition np_isfinite :: "real option \<Rightarrow> bool" where
  "np_isfinite e = (case e of None \<Rightarrow> False | Some _ \<Rightarrow> True)"

fun chunk_loop ::
  "(int \<Rightarrow> error + real option \<times> real option) \<Rightarrow> int list \<Rightarrow>
   error + real option list \<times> real option list" where
  \<comment> \<open>\<^verbatim>\<open>for i_o, o in enumerate(orders): rv[i_o], e_rv[i_o] = fit_chunk(o)\<close>;
      \<open>fit_order ord\<close> is the call \<^verbatim>\<open>fit_chunk(o)\<close>, with its reading of the chunk\<close>
  "chunk_loop fit_order [] = Inr ([], [])"
| "chunk_loop fit_order (ord # orders) =
     bind_r (fit_order ord) (\<lambda>(rvo, e_rvo).
     bind_r (chunk_loop fit_order orders) (\<lambda>(rv, e_rv).
     Inr (rvo # rv, e_rvo # e_rv)))"

definition aggregate :: "real option list \<Rightarrow> real option list \<Rightarrow> real option \<times> real option" where
  \<comment> \<open>lines 187 to 189\<close>
  "aggregate rv e_rv =
     (let ii = map np_isfinite e_rv;
          rv_ii = map fst (filter snd (zip rv ii));
          RV = np_mean rv_ii;
          e_RV = do {
            sd \<leftarrow> np_std rv_ii;
            d \<leftarrow> fsqrt (real_of_int (int (length (filter id ii)) - 1));
            fdiv sd d }
      in (RV, e_RV))"

definition viper_main ::
  "(int \<Rightarrow> error + real option \<times> real option) \<Rightarrow> int list \<Rightarrow> error + real option \<times> real option" where
  "viper_main fit_order orders =
     bind_r (chunk_loop fit_order orders) (\<lambda>(rv, e_rv). Inr (aggregate rv e_rv))"

definition scenario_fit_chunk :: "int \<Rightarrow> error + real option \<times> real option" where
  "scenario_fit_chunk ord = (if ord = 18 then Inr (Some 7, None) else Inr (Some 3, Some (1 / 5)))"

definition raising_fit_chunk :: "int \<Rightarrow> error + real option \<times> real option" where
  "raising_fit_chunk ord = (if ord = 18 then Inl RuntimeError else Inr (Some 3, Some (1 / 5)))"


section \<open>The evaluator on a store\<close>

text \<open>
  Whether an evaluation changes the model object depends on which arrays the in-place
  operations of \<^verbatim>\<open>__call__\<close> write to. Here the arrays live in a store, a list of
  arrays addressed by position; the attributes of the object that are arrays are
  addresses (\<open>lnwave_j_eff\<close>, a slice, is a view: the address of its base array and the
  two bounds). A new array is a new cell at the end of the store, an in-place operation
  overwrites the cell of its left operand. The statements after the absorber block build
  new arrays only, and the callables of the model are taken not to write to their
  arguments (the kernel functions of the module rebind \<open>vk\<close> and work in place only on
  arrays they have created); these statements are the functions \<open>convolved\<close> and
  \<open>sampled\<close> on the values read from the store.
\<close>

type_synonym store = "real list list"

definition alloc :: "real list \<Rightarrow> store \<Rightarrow> store \<times> nat" where
  \<comment> \<open>a new array: the store grows by one cell, whose address is returned\<close>
  "alloc v st = (st @ [v], length st)"

record model_obj =
  o_xcen :: real
  o_S_star :: "real list \<Rightarrow> error + real list"
  o_lnwave_j :: nat
  o_spec_cell_j :: nat
  o_fluxes_molec :: "nat list"
  o_IP :: "real list \<Rightarrow> real list \<Rightarrow> error + real list"
  o_dx :: real
  o_IP_hs :: int
  o_vk :: nat
  o_lnwave_j_eff :: "nat \<times> int \<times> int"
  o_func_norm :: "real list \<Rightarrow> real list \<Rightarrow> error + real list"

definition model_of :: "store \<Rightarrow> model_obj \<Rightarrow> model" where
  \<comment> \<open>the values of the attributes in a store\<close>
  "model_of st ob =
     \<lparr> self_xcen = o_xcen ob, self_S_star = o_S_star ob,
       self_lnwave_j = st ! o_lnwave_j ob,
       self_spec_cell_j = st ! o_spec_cell_j ob,
       self_fluxes_molec = map ((!) st) (o_fluxes_molec ob),
       self_IP = o_IP ob, self_dx = o_dx ob, self_IP_hs = o_IP_hs ob,
       self_vk = st ! o_vk ob,
       self_lnwave_j_eff =
         (case o_lnwave_j_eff ob of (a, i, j) \<Rightarrow> py_slice (st ! a) i j),
       self_func_norm = o_func_norm ob \<rparr>"

definition allocated :: "store \<Rightarrow> model_obj \<Rightarrow> bool" where
  \<comment> \<open>every array the object refers to is in the store\<close>
  "allocated st ob =
     (o_lnwave_j ob < length st \<and> o_spec_cell_j ob < length st \<and> o_vk ob < length st \<and>
      fst (o_lnwave_j_eff ob) < length st \<and> list_all (\<lambda>a. a < length st) (o_fluxes_molec ob))"

definition imul_st :: "nat \<Rightarrow> real list \<Rightarrow> store \<Rightarrow> store \<times> (error + unit)" where
  \<comment> \<open>\<^verbatim>\<open>a *= t\<close>: the array at address \<open>a\<close> is overwritten in place\<close>
  "imul_st a t st =
     (case np_imul (st ! a) t of
        Inl e \<Rightarrow> (st, Inl e)
      | Inr v \<Rightarrow> (st[a := v], Inr ()))"

fun absorb_st :: "nat \<Rightarrow> (real \<times> nat) list \<Rightarrow> store \<Rightarrow> store \<times> (error + unit)" where
  "absorb_st flux_atm [] st = (st, Inr ())"
| "absorb_st flux_atm ((coeff_mol, flux_mol) # rest) st =
     (case fin (vpow (st ! flux_mol) \<bar>coeff_mol\<bar>) of
        Inl e \<Rightarrow> (st, Inl e)
      | Inr t \<Rightarrow>
         (case imul_st flux_atm t st of
            (st', Inl e) \<Rightarrow> (st', Inl e)
          | (st', Inr _) \<Rightarrow> absorb_st flux_atm rest st'))"

definition spec_gas_st :: "model_obj \<Rightarrow> real list \<Rightarrow> store \<Rightarrow> store \<times> (error + nat)" where
  \<comment> \<open>lines 119 to 131; returns the address of \<open>spec_gas\<close>, the new array that
      \<^verbatim>\<open>1 * self.spec_cell_j\<close> creates\<close>
  "spec_gas_st ob coeff_atm st =
     (case alloc (st ! o_spec_cell_j ob) st of (st1, spec_gas) \<Rightarrow>
      if length (o_fluxes_molec ob) \<noteq> 0 then
        case alloc (replicate (length (st1 ! hd (o_fluxes_molec ob))) 1) st1 of
          (st2, flux_atm) \<Rightarrow>
        case absorb_st flux_atm (zip coeff_atm (o_fluxes_molec ob)) st2 of
          (st3, Inl e) \<Rightarrow> (st3, Inl e)
        | (st3, Inr _) \<Rightarrow>
           if length coeff_atm = length (o_fluxes_molec ob) + 1 then
             case fin (flog (1 + last coeff_atm / c_light)) of
               Inl e \<Rightarrow> (st3, Inl e)
             | Inr shift \<Rightarrow>
                (case np_interp (st3 ! o_lnwave_j ob)
                        (map (\<lambda>x. x - shift) (st3 ! o_lnwave_j ob)) (st3 ! flux_atm) of
                   Inl e \<Rightarrow> (st3, Inl e)
                 | Inr v \<Rightarrow>
                    (case alloc v st3 of (st4, flux_atm') \<Rightarrow>
                     case imul_st spec_gas (st4 ! flux_atm') st4 of
                       (st5, Inl e) \<Rightarrow> (st5, Inl e)
                     | (st5, Inr _) \<Rightarrow> (st5, Inr spec_gas)))
           else
             (case imul_st spec_gas (st3 ! flux_atm) st3 of
                (st5, Inl e) \<Rightarrow> (st5, Inl e)
              | (st5, Inr _) \<Rightarrow> (st5, Inr spec_gas))
      else (st1, Inr spec_gas))"

definition call_st ::
  "model_obj \<Rightarrow> real list \<Rightarrow> real \<Rightarrow> real list \<Rightarrow> real list \<Rightarrow> real list \<Rightarrow> real list \<Rightarrow> real list
   \<Rightarrow> store \<Rightarrow> store \<times> (error + real list)" where
  "call_st ob pixel rv coeff_norm coeff_wave coeff_ip coeff_atm coeff_bkg st =
     (case spec_gas_st ob coeff_atm st of
        (st', Inl e) \<Rightarrow> (st', Inl e)
      | (st', Inr spec_gas) \<Rightarrow>
         (st', bind_r (convolved (model_of st' ob) (st' ! spec_gas) rv coeff_ip coeff_bkg)
                 (\<lambda>Sj_eff. sampled (model_of st' ob) Sj_eff pixel coeff_norm coeff_wave)))"

definition unchanged :: "store \<Rightarrow> store \<Rightarrow> bool" where
  \<comment> \<open>every array of the first store is in the second, at its address, with its contents\<close>
  "unchanged st st' = (take (length st) st' = st)"

text \<open>
  \<^verbatim>\<open>model.fit\<close> on the store. The solver calls the closure as often as it likes, on
  parameter vectors it chooses from what it has seen: a strategy maps the evaluations made
  so far to the next step. An exception of the closure leaves the solver; the number of
  evaluations is bounded by a fuel, and a run that uses it up has no result.
\<close>

definition S_model_st ::
  "model_obj \<Rightarrow> fit_args \<Rightarrow> real list \<Rightarrow> real list \<Rightarrow> store \<Rightarrow> store \<times> (error + real list)" where
  \<comment> \<open>the closure of \<^verbatim>\<open>fit\<close>, on the store\<close>
  "S_model_st ob g x params st =
     (case assemble g params of (rvs, nrm, wave, ip, atm, bkg) \<Rightarrow>
        (case rvs of
           [rv] \<Rightarrow> call_st ob x rv nrm wave ip atm bkg st
         | [] \<Rightarrow>
            (case spec_gas_st ob bkg st of
               (st', Inl e) \<Rightarrow> (st', Inl e)
             | (st', Inr _) \<Rightarrow>
                (st', bind_r (o_IP ob (st' ! o_vk ob) atm) (\<lambda>_. Inl TypeError)))
         | _ \<Rightarrow> (st, Inl TypeError)))"

datatype solver_step =
  Evaluate "real list" | Return "real list" "real list list" | Raise error

type_synonym strategy = "(real list \<times> real list) list \<Rightarrow> solver_step"

fun run_solver ::
  "nat \<Rightarrow> strategy \<Rightarrow> (real list \<Rightarrow> store \<Rightarrow> store \<times> (error + real list)) \<Rightarrow>
   (real list \<times> real list) list \<Rightarrow> store \<Rightarrow> store \<times> (error + real list \<times> real list list) option"
  where
  "run_solver 0 strat f hist st = (st, None)"
| "run_solver (Suc n) strat f hist st =
     (case strat hist of
        Evaluate params \<Rightarrow>
          (case f params st of
             (st', Inl e) \<Rightarrow> (st', Some (Inl e))
           | (st', Inr y) \<Rightarrow> run_solver n strat f (hist @ [(params, y)]) st')
      | Return params e_params \<Rightarrow> (st, Some (Inr (params, e_params)))
      | Raise e \<Rightarrow> (st, Some (Inl e)))"

definition fit_st ::
  "nat \<Rightarrow> (real list \<Rightarrow> real list \<Rightarrow> real list \<Rightarrow> real list \<Rightarrow> strategy) \<Rightarrow> model_obj \<Rightarrow>
   real list \<Rightarrow> real list \<Rightarrow> fit_args \<Rightarrow> store \<Rightarrow>
   store \<times> (error + arg list \<times> real list list) option" where
  "fit_st fuel curve_fit_strategy ob pixel spec_obs g st =
     (case run_solver fuel (curve_fit_strategy pixel spec_obs (p0 g) (sig g))
             (S_model_st ob g pixel) [] st of
        (st', None) \<Rightarrow> (st', None)
      | (st', Some (Inl e)) \<Rightarrow> (st', Some (Inl e))
      | (st', Some (Inr (params, e_params))) \<Rightarrow>
          (case assemble g params of (rvs, nrm, wave, ip, atm, bkg) \<Rightarrow>
             (st', Some (Inr (map Num rvs @ [Tup nrm, Tup wave, Tup ip, Tup atm, Tup bkg],
                              e_params)))))"

definition example_store :: store where
  "example_store = [[0, 1, 2, 3], [1, 1, 1, 1], [1, 1 / 2, 1, 1], [1 / 4, 1, 1, 1],
                    [- c_light, 0, c_light]]"

definition example_obj :: model_obj where
  "example_obj =
     \<lparr> o_xcen = 0, o_S_star = flat_template, o_lnwave_j = 0, o_spec_cell_j = 1,
       o_fluxes_molec = [2, 3], o_IP = IP_callable, o_dx = 1, o_IP_hs = 1, o_vk = 4,
       o_lnwave_j_eff = (0, 1, - 1), o_func_norm = poly_callable \<rparr>"



section \<open>The band-limited variant (model.py, class model_bnd)\<close>

text \<open>
  The subclass uses the constructor of \<open>model\<close>, and the coefficients of the initial
  wavelength solution in the place of the kernel function, so its attribute \<open>IP\<close> is a
  list. The attributes that \<open>base\<close> assigns (\<open>x\<close>, \<open>bnd\<close>, \<open>BBxjl\<close>, \<open>Bxk\<close>) do not
  exist before its first call: \<open>None\<close>. No statement of the class works in place, so the
  arrays are values here and a method returns the object as it leaves it. The keyword
  arguments \<^verbatim>\<open>**kwargs\<close> are those of \<open>base\<close>, each given or not.
\<close>

record model_bnd =
  bnd_xcen :: real
  bnd_S_star :: "real list \<Rightarrow> error + real list"
  bnd_lnwave_j :: "real list"
  bnd_spec_cell_j :: "real list"
  bnd_fluxes_molec :: "real list list"
  bnd_IP :: "real list"
  bnd_dx :: real
  bnd_IP_hs :: int
  bnd_vk :: "real list"
  bnd_lnwave_j_eff :: "real list"
  bnd_x :: "real list option"
  bnd_bnd :: "int list list option"
  bnd_BBxjl :: "real list list list option"
  bnd_Bxk :: "real list list option"

record kwargs =
  kw_x :: "real list option"
  kw_degk :: "nat option"
  kw_sig_k :: "real option"

definition given :: "kwargs \<Rightarrow> bool" where
  \<comment> \<open>\<^verbatim>\<open>if kwargs:\<close>, the dictionary is not empty\<close>
  "given kw = (kw_x kw \<noteq> None \<or> kw_degk kw \<noteq> None \<or> kw_sig_k kw \<noteq> None)"

definition astype_int :: "real \<Rightarrow> int" where
  \<comment> \<open>\<^verbatim>\<open>.astype(int)\<close>: the fraction is cut off\<close>
  "astype_int q = (if 0 \<le> q then \<lfloor>q\<rfloor> else \<lceil>q\<rceil>)"

definition take_index :: "real list \<Rightarrow> int \<Rightarrow> error + real" where
  \<comment> \<open>one element of \<^verbatim>\<open>xs[idx]\<close> for an integer array \<open>idx\<close>: negative indices count from the end\<close>
  "take_index xs i =
     (let n = int (length xs) in
      if 0 \<le> i \<and> i < n then Inr (xs ! nat i)
      else if - n \<le> i \<and> i < 0 then Inr (xs ! nat (n + i))
      else Inl IndexError)"

fun sequence :: "(error + 'a) list \<Rightarrow> error + 'a list" where
  \<comment> \<open>the results in order, or the first error\<close>
  "sequence [] = Inr []"
| "sequence (r # rs) = bind_r r (\<lambda>v. bind_r (sequence rs) (\<lambda>vs. Inr (v # vs)))"

definition take_indices :: "real list \<Rightarrow> int list list \<Rightarrow> error + real list list" where
  \<comment> \<open>\<^verbatim>\<open>xs[bnd]\<close> for a 2-d integer array \<open>bnd\<close>\<close>
  "take_indices xs idx = sequence (map (\<lambda>row. sequence (map (take_index xs) row)) idx)"

definition base ::
  "model_bnd \<Rightarrow> real list option \<Rightarrow> nat \<Rightarrow> real \<Rightarrow> model_bnd \<times> (error + unit)" where
  \<comment> \<open>\<^verbatim>\<open>model_bnd.base(x, degk, sig_k)\<close>: the attributes it has assigned stay assigned
      when a later statement raises\<close>
  "base ob x degk sig_k =
     (let ob1 = ob\<lparr>bnd_x := x\<rparr>;
          bg = bnd_IP ob1
      in case x of
        None \<Rightarrow> (ob1, Inl TypeError)
      | Some xs \<Rightarrow>
         (case fin (those (map (\<lambda>p. flog (poly (p - bnd_xcen ob1) bg)) xs)) of
            Inl e \<Rightarrow> (ob1, Inl e)
          | Inr lnwave_obs \<Rightarrow>
             let j = map real [0..<length (bnd_lnwave_j ob1)] in
             (case np_interp lnwave_obs (bnd_lnwave_j ob1) j of
                Inl e \<Rightarrow> (ob1, Inl e)
              | Inr jx \<Rightarrow>
                 let vl = [- 1.4, - 0.7, 0, 0.7, 1.4];
                     bnd = map (\<lambda>q. map (\<lambda>k. astype_int q + k)
                                  (arange (- bnd_IP_hs ob1) (bnd_IP_hs ob1 + 1))) jx;
                     ob2 = ob1\<lparr>bnd_bnd := Some bnd\<rparr>
                 in
                 (case take_indices (bnd_lnwave_j ob2) bnd of
                    Inl e \<Rightarrow> (ob2, Inl e)
                  | Inr lnw \<Rightarrow>
                     (case fin (those (map (\<lambda>(row, obs).
                                  those (map (\<lambda>w.
                                    those (map (\<lambda>l.
                                      map_option exp (fdiv (- ((w - obs + sig_k * l) ^ 2)) (sig_k ^ 2)))
                                      vl)) row)) (zip lnw lnwave_obs))) of
                        Inl e \<Rightarrow> (ob2, Inl e)
                      | Inr BB \<Rightarrow>
                         let ob3 = ob2\<lparr>bnd_BBxjl := Some BB\<rparr>;
                             mean = sum_list xs / real (length xs);
                             Bxk = map (\<lambda>p. map (\<lambda>k. (p - mean) ^ k) [0..<degk]) xs
                         in (ob3\<lparr>bnd_Bxk := Some Bxk\<rparr>, Inr ()))))))"

definition einsum ::
  "real list list \<Rightarrow> real list list list \<Rightarrow> real list list \<Rightarrow> error + real list list list" where
  \<comment> \<open>\<^verbatim>\<open>np.einsum('xj,xjl,xk->xkl', A, BB, B)\<close>\<close>
  "einsum A BB B =
     (if length A = length BB \<and> length B = length BB \<and>
         list_all (\<lambda>(a, bb). length a = length bb) (zip A BB)
      then Inr (map (\<lambda>(a, bb, b).
                  map (\<lambda>bk. map (\<lambda>l. sum_list (map (\<lambda>(aj, bbj). aj * bbj ! l * bk) (zip a bb)))
                               [0..<(case bb of [] \<Rightarrow> 0 | r # _ \<Rightarrow> length r)]) b)
                (zip A (zip BB B)))
      else Inl ValueError)"

definition run_base :: "model_bnd \<Rightarrow> kwargs \<Rightarrow> model_bnd \<times> (error + unit)" where
  \<comment> \<open>\<^verbatim>\<open>if kwargs: self.base(**kwargs)\<close>, with the defaults \<^verbatim>\<open>x=None, degk=3, sig_k=1\<close>\<close>
  "run_base ob kw =
     (if given kw then
        base ob (kw_x kw) (case kw_degk kw of None \<Rightarrow> 3 | Some d \<Rightarrow> d)
          (case kw_sig_k kw of None \<Rightarrow> 1 | Some s \<Rightarrow> s)
      else (ob, Inr ()))"

definition Axk :: "model_bnd \<Rightarrow> real \<Rightarrow> kwargs \<Rightarrow> model_bnd \<times> (error + real list list list)" where
  \<comment> \<open>\<^verbatim>\<open>model_bnd.Axk(v, **kwargs)\<close>\<close>
  "Axk ob v kw =
     (case run_base ob kw of
        (ob', Inl e) \<Rightarrow> (ob', Inl e)
      | (ob', Inr _) \<Rightarrow>
         (ob',
          bind_r (bnd_S_star ob' (map (\<lambda>x. x - v / c_light) (bnd_lnwave_j ob'))) (\<lambda>starj.
          bind_r (np_mul starj (bnd_spec_cell_j ob')) (\<lambda>prod.
          case bnd_bnd ob' of None \<Rightarrow> Inl AttributeError | Some bnd \<Rightarrow>
          bind_r (take_indices prod bnd) (\<lambda>A.
          case bnd_BBxjl ob' of None \<Rightarrow> Inl AttributeError | Some BB \<Rightarrow>
          case bnd_Bxk ob' of None \<Rightarrow> Inl AttributeError | Some B \<Rightarrow>
          einsum A BB B)))))"

definition reshape_rows :: "real list list list \<Rightarrow> error + real list list" where
  \<comment> \<open>\<^verbatim>\<open>Axkl.reshape((len(Axkl), -1))\<close>\<close>
  "reshape_rows Axkl = (if Axkl = [] then Inl ValueError else Inr (map concat Axkl))"

definition fit_bnd ::
  "(real list list \<Rightarrow> real list \<Rightarrow> error + 'r) \<Rightarrow> model_bnd \<Rightarrow> real list \<Rightarrow> real \<Rightarrow> kwargs \<Rightarrow>
   model_bnd \<times> (error + 'r)" where
  \<comment> \<open>\<^verbatim>\<open>model_bnd.fit(f, v, **kwargs)\<close>; \<open>lstsq\<close> is \<^verbatim>\<open>np.linalg.lstsq\<close> with its \<open>rcond\<close>\<close>
  "fit_bnd lstsq ob f v kw =
     (case Axk ob v kw of
        (ob', r) \<Rightarrow>
          (ob', bind_r r (\<lambda>Axkl. bind_r (reshape_rows Axkl) (\<lambda>M. lstsq M f))))"

definition call_bnd ::
  "model_bnd \<Rightarrow> real list \<Rightarrow> real \<Rightarrow> real list \<Rightarrow> kwargs \<Rightarrow> model_bnd \<times> (error + real list)" where
  \<comment> \<open>\<^verbatim>\<open>model_bnd.__call__(x, v, ak, **kwargs)\<close>\<close>
  "call_bnd ob x v ak kw =
     (case Axk ob v kw of
        (ob', r) \<Rightarrow>
          (ob', bind_r r (\<lambda>Axkl. bind_r (reshape_rows Axkl) (\<lambda>M.
                  if list_all (\<lambda>row. length row = length ak) M then Inr (map (\<lambda>row. dot row ak) M)
                  else Inl ValueError))))"

definition same_model :: "model_bnd \<Rightarrow> model_bnd \<Rightarrow> bool" where
  \<comment> \<open>the attributes the constructor sets are the same in both objects\<close>
  "same_model ob ob' =
     (ob' = ob\<lparr>bnd_x := bnd_x ob', bnd_bnd := bnd_bnd ob', bnd_BBxjl := bnd_BBxjl ob',
               bnd_Bxk := bnd_Bxk ob'\<rparr>)"

definition example_bnd :: model_bnd where
  "example_bnd =
     \<lparr> bnd_xcen = 0, bnd_S_star = flat_template, bnd_lnwave_j = [0, 1, 2, 3],
       bnd_spec_cell_j = [1, 1, 1, 1], bnd_fluxes_molec = [], bnd_IP = [1],
       bnd_dx = 1, bnd_IP_hs = 1, bnd_vk = [- c_light, 0, c_light],
       bnd_lnwave_j_eff = [1, 2], bnd_x = None, bnd_bnd = None, bnd_BBxjl = None,
       bnd_Bxk = None \<rparr>"

definition example_kwargs :: kwargs where
  "example_kwargs = \<lparr> kw_x = Some [1], kw_degk = None, kw_sig_k = None \<rparr>"

definition no_kwargs :: kwargs where
  "no_kwargs = \<lparr> kw_x = None, kw_degk = None, kw_sig_k = None \<rparr>"


section \<open>Facts about arrays\<close>

lemma vdiv_eq:
  "vdiv xs s = (if s = 0 then (if xs = [] then Some [] else None)
                else Some (map (\<lambda>x. x / s) xs))"
  by (induction xs) (auto simp: vdiv_def fdiv_def)

lemma vdiv_length: "vdiv xs s = Some ys \<Longrightarrow> length ys = length xs"
  by (auto simp: vdiv_eq split: if_splits)

lemma those_length: "those xs = Some ys \<Longrightarrow> length ys = length xs"
  by (induction xs arbitrary: ys) (auto split: option.splits)

lemma sum_list_divide: "sum_list (map (\<lambda>x. x / s) xs) = sum_list xs / (s::real)"
  by (induction xs) (auto simp: add_divide_distrib)

lemma normalise_unit_sum:
  assumes "sum_list xs \<noteq> 0"
  shows "\<exists>k. normalise xs = Some k \<and> length k = length xs \<and> sum_list k = 1"
  using assms by (simp add: normalise_def vdiv_eq sum_list_divide)

lemma erf_0: "erf 0 = 0"
  by (simp add: erf_def)

lemma bind_r_simps [simp]: "bind_r (Inl e) f = Inl e" "bind_r (Inr v) f = f v"
  by (simp_all add: bind_r_def)


lemma bind_r_Inr: "bind_r r Inr = r"
  by (cases r) simp_all





lemma vpow_length: "vpow xs e = Some ys \<Longrightarrow> length ys = length xs"
  unfolding vpow_def by (drule those_length) simp

lemma absorb_shape:
  assumes "length fa = L" "\<forall>p \<in> set ps. length (snd p) = L"
  shows "absorb fa ps = Inl NonFinite \<or> (\<exists>r. absorb fa ps = Inr r \<and> length r = L)"
  using assms
proof (induction ps arbitrary: fa)
  case Nil
  then show ?case by simp
next
  case (Cons p ps)
  obtain c f where p: "p = (c, f)" by (cases p)
  show ?case
  proof (cases "vpow f \<bar>c\<bar>")
    case None
    then show ?thesis by (simp add: p fin_def)
  next
    case (Some t)
    then have "length t = L"
      using Cons.prems(2) vpow_length [OF Some] by (simp add: p)
    then have "np_imul fa t = Inr (map2 (*) fa t)" "length (map2 (*) fa t) = L"
      using Cons.prems(1) by (simp_all add: np_imul_def)
    then show ?thesis
      using Cons.IH [of "map2 (*) fa t"] Cons.prems(2) Some by (simp add: p fin_def)
  qed
qed

lemma zip_take_same: "zip cs (take (length cs) fs) = zip cs fs"
proof (induction cs arbitrary: fs)
  case Nil
  then show ?case by simp
next
  case (Cons c cs)
  then show ?case by (cases fs) simp_all
qed

lemma map2_mult_ones: "map2 (*) xs (replicate (length xs) 1) = (xs :: real list)"
  by (induction xs) simp_all

lemma spec_gas_truncate:
  assumes wf: "\<forall>f \<in> set (self_fluxes_molec m). length f = length (self_spec_cell_j m)"
    and few: "length coeff_atm < length (self_fluxes_molec m)"
  shows "spec_gas_of (m\<lparr>self_fluxes_molec := take (length coeff_atm) (self_fluxes_molec m)\<rparr>)
           coeff_atm = spec_gas_of m coeff_atm"
    and "spec_gas_of m coeff_atm =
           bind_r (absorb (replicate (length (self_spec_cell_j m)) 1)
                     (zip coeff_atm (take (length coeff_atm) (self_fluxes_molec m))))
             (np_imul (self_spec_cell_j m))"
proof -
  from few have ne: "self_fluxes_molec m \<noteq> []" by auto
  then have hd_len: "length (hd (self_fluxes_molec m)) = length (self_spec_cell_j m)"
    using wf by simp
  show "spec_gas_of m coeff_atm =
           bind_r (absorb (replicate (length (self_spec_cell_j m)) 1)
                     (zip coeff_atm (take (length coeff_atm) (self_fluxes_molec m))))
             (np_imul (self_spec_cell_j m))"
    using ne few hd_len
    by (simp add: spec_gas_of_def flux_atm_of_def zip_take_same bind_r_Inr)
  show "spec_gas_of (m\<lparr>self_fluxes_molec := take (length coeff_atm) (self_fluxes_molec m)\<rparr>)
           coeff_atm = spec_gas_of m coeff_atm"
  proof (cases coeff_atm)
    case Nil
    then show ?thesis
      using ne hd_len by (simp add: spec_gas_of_def flux_atm_of_def np_imul_def map2_mult_ones)
  next
    case (Cons c cs)
    then have "take (length coeff_atm) (self_fluxes_molec m) \<noteq> []"
      using ne by simp
    moreover have "hd (take (length coeff_atm) (self_fluxes_molec m)) = hd (self_fluxes_molec m)"
      using Cons by simp
    moreover have "min (length (self_fluxes_molec m)) (length coeff_atm) = length coeff_atm"
      using few by simp
    ultimately show ?thesis
      using ne few by (simp add: spec_gas_of_def flux_atm_of_def zip_take_same)
  qed
qed

lemma IP_single: "IP [0] 1 = Some [1]"
  by (simp add: IP_def IP_raw_def normalise_def vdiv_eq)

lemma init_fields:
  assumes "init S lw sc fm ip fn h xc = Inr m"
  shows "self_lnwave_j m = lw" "self_spec_cell_j m = sc" "self_fluxes_molec m = fm"
    "self_IP m = ip" "self_S_star m = S" "self_IP_hs m = h"
    "self_vk m = map (\<lambda>k. real_of_int k * self_dx m * c_light) (arange (- h) (h + 1))"
    "self_lnwave_j_eff m = py_slice lw h (- h)"
  using assms by (auto simp: init_def Let_def split: list.splits)

lemma eff_grid_length:
  assumes "init S lw sc fm ip fn h xc = Inr m" "1 \<le> h" "2 * h + 1 \<le> int (length lw)"
  shows "length (self_lnwave_j_eff m) = length lw - 2 * nat h"
  using assms(2,3) unfolding init_fields(8) [OF assms(1)]
  by (auto simp: py_slice_def py_index_def Let_def)

lemma vk_length:
  assumes "init S lw sc fm ip fn h xc = Inr m" "0 \<le> h"
  shows "length (self_vk m) = 2 * nat h + 1"
  using assms(2) unfolding init_fields(7) [OF assms(1)]
  by (auto simp: arange_def)

lemma np_convolve_valid_length:
  "np_convolve_valid a v = Inr r \<Longrightarrow>
     length r = max (length a) (length v) - min (length a) (length v) + 1"
  by (auto simp: np_convolve_valid_def Let_def split: if_splits)

lemma np_imul_length: "np_imul xs ys = Inr r \<Longrightarrow> length r = length xs"
  by (auto simp: np_imul_def split: if_splits)

lemma spec_gas_length: "spec_gas_of m ca = Inr sg \<Longrightarrow> length sg = length (self_spec_cell_j m)"
  by (auto simp: spec_gas_of_def Let_def bind_r_def dest!: np_imul_length split: if_splits sum.splits)

lemma Sj_eff_length:
  assumes i: "init S lw sc fm ip fn h xc = Inr m" and h: "0 \<le> h"
    and N: "2 * h + 1 \<le> int (length lw)"
    and sc: "length sc = length lw"
    and ip: "\<And>vk c k. ip vk c = Inr k \<Longrightarrow> length k = length vk"
    and S: "\<And>x y. S x = Inr y \<Longrightarrow> length y = length x"
    and r: "Sj_eff_of m rv coeff_ip coeff_atm coeff_bkg = Inr Sj"
  shows "length Sj = length lw - 2 * nat h"
proof -
  note f = init_fields [OF i]
  from r obtain sg k st b prod where
    sg: "spec_gas_of m coeff_atm = Inr sg" and k: "ip (self_vk m) coeff_ip = Inr k"
    and st: "S (map (\<lambda>x. x - rv / c_light) lw) = Inr st"
    and prod: "np_mul st (map (\<lambda>g. g + b) sg) = Inr prod"
    and conv: "np_convolve_valid k prod = Inr Sj"
    unfolding Sj_eff_of_def convolved_def f by (auto simp: bind_r_def split: sum.splits)
  have "length sg = length lw"
    using spec_gas_length [OF sg] sc by (simp add: f)
  moreover have "length st = length lw"
    using S [OF st] by simp
  ultimately have "length prod = length lw"
    using prod by (auto simp: np_mul_def)
  moreover have "length k = 2 * nat h + 1"
    using ip [OF k] vk_length [OF i h] by simp
  ultimately show ?thesis
    using np_convolve_valid_length [OF conv] N h by auto
qed

lemma example_fields:
  "self_fluxes_molec example_model = [[1, 1 / 2, 1, 1], [1 / 4, 1, 1, 1]]"
  "self_spec_cell_j example_model = [1, 1, 1, 1]"
  "self_lnwave_j example_model = [0, 1, 2, 3]"
  by (simp_all add: example_model_def)

lemma init_example:
  "init flat_template [0, 1, 2, 3] [1, 1, 1, 1] [[1, 1 / 2, 1, 1], [1 / 4, 1, 1, 1]]
     IP_callable poly_callable 1 0 = Inr example_model"
  by (simp add: init_def example_model_def arange_def py_slice_def py_index_def
      upto_rec1 [of "- 1"] upto_rec1 [of 0] upto_rec1 [of 1])



lemma S_model_without_rv:
  assumes "par_rv g = None" "parfix_rv g = None"
  shows "\<exists>e. S_model m g x params = Inl e"
proof -
  have "fst (assemble g params) = []"
    using assms by (simp add: assemble_def tuple_of_def py_slice_def py_index_def Let_def)
  then show ?thesis
    by (cases "assemble g params")
      (auto simp: S_model_def bind_r_def split: sum.splits)
qed


lemma chunk_loop_all:
  assumes "\<forall>ord \<in> set orders. fit_order ord = Inr (res ord)"
  shows "chunk_loop fit_order orders = Inr (map (fst \<circ> res) orders, map (snd \<circ> res) orders)"
  using assms by (induction orders) (simp_all add: case_prod_beta)

lemma chunk_loop_raise:
  assumes "ord \<in> set orders" "fit_order ord = Inl e"
  shows "\<exists>e'. chunk_loop fit_order orders = Inl e'"
  using assms
proof (induction orders)
  case Nil
  then show ?case by simp
next
  case (Cons a orders)
  show ?case
  proof (cases "fit_order a")
    case (Inl e')
    then show ?thesis by simp
  next
    case (Inr r)
    then have "a \<noteq> ord" using Cons.prems by auto
    then obtain e' where "chunk_loop fit_order orders = Inl e'"
      using Cons by auto
    then show ?thesis using Inr by (simp add: case_prod_beta)
  qed
qed

lemma select_valid:
  "map fst (filter snd (zip (map f xs) (map np_isfinite (map g xs)))) =
     map f (filter (\<lambda>x. np_isfinite (g x)) xs)"
  by (induction xs) simp_all

lemma count_valid:
  "length (filter id (map np_isfinite (map g xs))) = length (filter (\<lambda>x. np_isfinite (g x)) xs)"
  by (induction xs) simp_all

lemma those_map_Some: "those (map Some ws) = Some ws"
  by (induction ws) simp_all

lemma np_mean_finite:
  "ws \<noteq> [] \<Longrightarrow> np_mean (map Some ws) = Some (sum_list ws / real (length ws))"
  by (simp add: np_mean_def those_map_Some fdiv_def)

lemma np_std_finite:
  assumes "ws \<noteq> []"
  shows "np_std (map Some ws) =
    Some (sqrt (sum_list (map (\<lambda>w. (w - sum_list ws / real (length ws)) ^ 2) ws) / real (length ws)))"
proof -
  have "0 \<le> sum_list (map (\<lambda>w. (w - sum_list ws / real (length ws)) ^ 2) ws)"
    by (rule sum_list_nonneg) auto
  then have "0 \<le> sum_list (map (\<lambda>w. (w - sum_list ws / real (length ws)) ^ 2) ws) / real (length ws)"
    by simp
  then show ?thesis
    using assms
    by (simp add: np_std_def np_mean_finite those_map_Some fdiv_def fsqrt_def not_less [symmetric])
qed







lemma unchanged_iff: "unchanged st st' \<longleftrightarrow> (\<exists>xs. st' = st @ xs)"
  unfolding unchanged_def
  by (metis append_eq_conv_conj append_take_drop_id)

lemma unchanged_refl: "unchanged st st"
  by (simp add: unchanged_def)

lemma unchanged_trans: "unchanged a b \<Longrightarrow> unchanged b c \<Longrightarrow> unchanged a c"
  unfolding unchanged_iff by auto

lemma unchanged_update:
  "unchanged st0 st \<Longrightarrow> length st0 \<le> a \<Longrightarrow> unchanged st0 (st[a := v])"
  unfolding unchanged_iff by (auto simp: list_update_append)

lemma unchanged_nth: "unchanged st st' \<Longrightarrow> a < length st \<Longrightarrow> st' ! a = st ! a"
  unfolding unchanged_iff by (auto simp: nth_append)

lemma imul_st_frame:
  "unchanged st0 st \<Longrightarrow> length st0 \<le> a \<Longrightarrow> unchanged st0 (fst (imul_st a t st))"
  by (auto simp: imul_st_def unchanged_update split: sum.splits)

lemma absorb_st_frame:
  "unchanged st0 st \<Longrightarrow> length st0 \<le> fa \<Longrightarrow> unchanged st0 (fst (absorb_st fa ps st))"
proof (induction ps arbitrary: st)
  case Nil
  then show ?case by simp
next
  case (Cons p ps)
  obtain c f where p: "p = (c, f)" by (cases p)
  show ?case
  proof (cases "fin (vpow (st ! f) \<bar>c\<bar>)")
    case (Inl e)
    then show ?thesis using Cons.prems by (simp add: p)
  next
    case (Inr t)
    obtain st' r where i: "imul_st fa t st = (st', r)" by (cases "imul_st fa t st")
    then have u: "unchanged st0 st'"
      using imul_st_frame [OF Cons.prems, of t] by simp
    show ?thesis
      using Inr i u Cons.IH [OF u Cons.prems(2)] by (cases r) (simp_all add: p)
  qed
qed

lemma spec_gas_st_frame: "unchanged st (fst (spec_gas_st ob coeff_atm st))"
proof -
  let ?st1 = "st @ [st ! o_spec_cell_j ob]"
  let ?st2 = "?st1 @ [replicate (length (?st1 ! hd (o_fluxes_molec ob))) 1]"
  have u1: "unchanged st ?st1" and u2: "unchanged st ?st2"
    unfolding unchanged_iff by auto
  obtain st3 r where a: "absorb_st (length ?st1) (zip coeff_atm (o_fluxes_molec ob)) ?st2 = (st3, r)"
    by (cases "absorb_st (length ?st1) (zip coeff_atm (o_fluxes_molec ob)) ?st2")
  have u3: "unchanged st st3"
    using absorb_st_frame [OF u2, of "length ?st1" "zip coeff_atm (o_fluxes_molec ob)"] a by simp
  have u4: "unchanged st (st3 @ [v])" for v
    using u3 unfolding unchanged_iff by auto
  have u5: "unchanged st (fst (imul_st (length st) t st3))" for t
    using imul_st_frame [OF u3] by simp
  have u6: "unchanged st (fst (imul_st (length st) t (st3 @ [v])))" for t v
    using imul_st_frame [OF u4] by simp
  show ?thesis
    unfolding spec_gas_st_def alloc_def
    using u1 u3 u5 u6 a
    by (auto simp: split_beta split: sum.splits prod.splits)
qed

lemma call_st_frame:
  "unchanged st (fst (call_st ob pixel rv coeff_norm coeff_wave coeff_ip coeff_atm coeff_bkg st))"
  using spec_gas_st_frame [of st ob coeff_atm]
  by (auto simp: call_st_def split: prod.splits sum.splits)

lemma model_of_unchanged:
  assumes "unchanged st st'" "allocated st ob"
  shows "model_of st' ob = model_of st ob"
proof -
  have "map ((!) st') (o_fluxes_molec ob) = map ((!) st) (o_fluxes_molec ob)"
    using assms by (auto simp: allocated_def list_all_iff unchanged_nth)
  then show ?thesis
    using assms by (auto simp: model_of_def allocated_def unchanged_nth split: prod.splits)
qed

lemma absorb_st_value:
  assumes "fa < length st" "\<forall>p \<in> set ps. snd p < length st \<and> snd p \<noteq> fa"
  shows "length (fst (absorb_st fa ps st)) = length st \<and>
         (\<forall>a. a \<noteq> fa \<longrightarrow> fst (absorb_st fa ps st) ! a = st ! a) \<and>
         (case snd (absorb_st fa ps st) of
            Inl e \<Rightarrow> absorb (st ! fa) (map (\<lambda>(c, f). (c, st ! f)) ps) = Inl e
          | Inr _ \<Rightarrow> absorb (st ! fa) (map (\<lambda>(c, f). (c, st ! f)) ps)
                       = Inr (fst (absorb_st fa ps st) ! fa))"
  using assms
proof (induction ps arbitrary: st)
  case Nil
  then show ?case by simp
next
  case (Cons p ps)
  obtain c f where p: "p = (c, f)" by (cases p)
  have f: "f < length st" "f \<noteq> fa" using Cons.prems(2) by (auto simp: p)
  show ?case
  proof (cases "vpow (st ! f) \<bar>c\<bar>")
    case None
    then show ?thesis by (simp add: p fin_def)
  next
    case (Some t)
    show ?thesis
    proof (cases "np_imul (st ! fa) t")
      case (Inl e)
      then show ?thesis using Some by (simp add: p fin_def imul_st_def)
    next
      case (Inr v)
      let ?st' = "st[fa := v]"
      have 1: "fa < length ?st'" using Cons.prems(1) by simp
      have 2: "\<forall>p \<in> set ps. snd p < length ?st' \<and> snd p \<noteq> fa"
        using Cons.prems(2) by simp
      have 3: "map (\<lambda>(c, f). (c, ?st' ! f)) ps = map (\<lambda>(c, f). (c, st ! f)) ps"
        using Cons.prems(2) by (auto simp: nth_list_update)
      have 4: "?st' ! fa = v" using Cons.prems(1) by simp
      have step: "absorb_st fa (p # ps) st = absorb_st fa ps ?st'"
        using Some Inr by (simp add: p fin_def imul_st_def)
      have val: "absorb (st ! fa) (map (\<lambda>(c, f). (c, st ! f)) (p # ps)) =
                 absorb v (map (\<lambda>(c, f). (c, st ! f)) ps)"
        using Some Inr by (simp add: p fin_def)
      show ?thesis
        using Cons.IH [OF 1 2] unfolding step val 3 4
        by (auto simp: nth_list_update)
    qed
  qed
qed

lemma zip_map_nth:
  "map (\<lambda>(c, f). (c, st ! f)) (zip cs fs) = zip cs (map ((!) st) fs)"
  by (induction cs fs rule: list_induct2') simp_all

lemma spec_gas_st_value:
  assumes al: "allocated st ob"
  shows "case snd (spec_gas_st ob coeff_atm st) of
           Inl e \<Rightarrow> spec_gas_of (model_of st ob) coeff_atm = Inl e
         | Inr a \<Rightarrow> spec_gas_of (model_of st ob) coeff_atm
                      = Inr (fst (spec_gas_st ob coeff_atm st) ! a)"
proof (cases "o_fluxes_molec ob = []")
  case True
  then show ?thesis
    by (simp add: spec_gas_st_def alloc_def spec_gas_of_def model_of_def)
next
  case False
  let ?m = "model_of st ob"
  let ?fl = "o_fluxes_molec ob"
  let ?sc = "st ! o_spec_cell_j ob"
  let ?n = "length st"
  let ?ones = "replicate (length (st ! hd ?fl)) (1::real)"
  let ?st2 = "st @ [?sc, ?ones]"
  let ?ps = "zip coeff_atm ?fl"
  let ?A = "absorb_st (Suc ?n) ?ps ?st2"
  have fl: "\<forall>a \<in> set ?fl. a < ?n"
    using al by (simp add: allocated_def list_all_iff)
  then have hd: "hd ?fl < ?n" using False by simp
  have ps: "\<forall>p \<in> set ?ps. snd p < length ?st2 \<and> snd p \<noteq> Suc ?n"
    using fl by (auto dest!: set_zip_rightD)
  have mp: "map (\<lambda>(c, f). (c, ?st2 ! f)) ?ps = zip coeff_atm (self_fluxes_molec ?m)"
  proof -
    have "map ((!) ?st2) ?fl = map ((!) st) ?fl"
      using fl by (auto simp: nth_append)
    then show ?thesis
      unfolding zip_map_nth by (simp only: model_of_def model.simps)
  qed
  have A: "length (fst ?A) = ?n + 2"
    "\<And>a. a \<noteq> Suc ?n \<Longrightarrow> fst ?A ! a = ?st2 ! a"
    "case snd ?A of
       Inl e \<Rightarrow> absorb ?ones (zip coeff_atm (self_fluxes_molec ?m)) = Inl e
     | Inr _ \<Rightarrow> absorb ?ones (zip coeff_atm (self_fluxes_molec ?m)) = Inr (fst ?A ! Suc ?n)"
  proof -
    have fa: "?st2 ! Suc ?n = ?ones" by (simp add: nth_append)
    have lt: "Suc ?n < length ?st2" by simp
    note V = absorb_st_value [OF lt ps, unfolded mp fa]
    show "length (fst ?A) = ?n + 2" using V by simp
    show "\<And>a. a \<noteq> Suc ?n \<Longrightarrow> fst ?A ! a = ?st2 ! a" using V by blast
    show "case snd ?A of
       Inl e \<Rightarrow> absorb ?ones (zip coeff_atm (self_fluxes_molec ?m)) = Inl e
     | Inr _ \<Rightarrow> absorb ?ones (zip coeff_atm (self_fluxes_molec ?m)) = Inr (fst ?A ! Suc ?n)"
      using V by blast
  qed
  have alloc2: "spec_gas_st ob coeff_atm st =
    (case ?A of
          (st3, Inl e) \<Rightarrow> (st3, Inl e)
        | (st3, Inr _) \<Rightarrow>
           if length coeff_atm = length (o_fluxes_molec ob) + 1 then
             case fin (flog (1 + last coeff_atm / c_light)) of
               Inl e \<Rightarrow> (st3, Inl e)
             | Inr shift \<Rightarrow>
                (case np_interp (st3 ! o_lnwave_j ob)
                        (map (\<lambda>x. x - shift) (st3 ! o_lnwave_j ob)) (st3 ! Suc ?n) of
                   Inl e \<Rightarrow> (st3, Inl e)
                 | Inr v \<Rightarrow>
                    (case alloc v st3 of (st4, flux_atm') \<Rightarrow>
                     case imul_st ?n (st4 ! flux_atm') st4 of
                       (st5, Inl e) \<Rightarrow> (st5, Inl e)
                     | (st5, Inr _) \<Rightarrow> (st5, Inr ?n)))
           else
             (case imul_st ?n (st3 ! Suc ?n) st3 of
                (st5, Inl e) \<Rightarrow> (st5, Inl e)
              | (st5, Inr _) \<Rightarrow> (st5, Inr ?n)))"
    using False hd
    by (simp add: spec_gas_st_def alloc_def nth_append cong: prod.case_cong sum.case_cong if_cong)
  have val: "spec_gas_of ?m coeff_atm =
      bind_r (bind_r (absorb ?ones (zip coeff_atm (self_fluxes_molec ?m))) (\<lambda>flux_atm.
        if length coeff_atm = length ?fl + 1 then
          bind_r (fin (flog (1 + last coeff_atm / c_light))) (\<lambda>shift.
          np_interp (st ! o_lnwave_j ob) (map (\<lambda>x. x - shift) (st ! o_lnwave_j ob)) flux_atm)
        else Inr flux_atm)) (np_imul ?sc)"
    using False by (simp add: spec_gas_of_def flux_atm_of_def model_of_def hd_map cong: if_cong)
  obtain st3 r where Aeq: "?A = (st3, r)" by (cases ?A)
  have l3: "length st3 = ?n + 2" and sc3: "st3 ! ?n = ?sc"
    and ln3: "st3 ! o_lnwave_j ob = st ! o_lnwave_j ob"
    using A(1) A(2) [of ?n] A(2) [of "o_lnwave_j ob"] al Aeq
    by (auto simp: allocated_def nth_append)
  show ?thesis
  proof (cases r)
    case (Inl e)
    then show ?thesis
      using A(3) Aeq unfolding alloc2 val by simp
  next
    case (Inr u)
    then have ab: "absorb ?ones (zip coeff_atm (self_fluxes_molec ?m)) = Inr (st3 ! Suc ?n)"
      using A(3) Aeq by simp
    have im: "case snd (imul_st ?n t st') of
                Inl e \<Rightarrow> np_imul ?sc t = Inl e
              | Inr _ \<Rightarrow> np_imul ?sc t = Inr (fst (imul_st ?n t st') ! ?n)"
      if "st' ! ?n = ?sc" "?n < length st'" for t st'
      using that by (auto simp: imul_st_def split: sum.splits)
    show ?thesis
    proof (cases "length coeff_atm = length ?fl + 1")
      case False
      then show ?thesis
        using im [of st3 "st3 ! Suc ?n"] sc3 l3 Inr Aeq unfolding alloc2 val ab
        by (auto split: sum.splits prod.splits)
    next
      case True
      show ?thesis
      proof (cases "fin (flog (1 + last coeff_atm / c_light))")
        case (Inl e)
        then show ?thesis
          using True Inr Aeq unfolding alloc2 val ab by simp
      next
        case sh: (Inr shift)
        show ?thesis
        proof (cases "np_interp (st ! o_lnwave_j ob) (map (\<lambda>x. x - shift) (st ! o_lnwave_j ob))
                        (st3 ! Suc ?n)")
          case (Inl e)
          then show ?thesis
            using True Inr Aeq sh ln3 unfolding alloc2 val ab by simp
        next
          case iv: (Inr v)
          have "(st3 @ [v]) ! ?n = ?sc" "?n < length (st3 @ [v])"
            using sc3 l3 by (simp_all add: nth_append)
          from im [OF this, of v] show ?thesis
            using True Inr Aeq sh iv ln3 l3 unfolding alloc2 val ab
            by (auto simp: alloc_def nth_append split: sum.splits prod.splits)
        qed
      qed
    qed
  qed
qed

lemma call_st_value:
  assumes "allocated st ob"
  shows "snd (call_st ob pixel rv coeff_norm coeff_wave coeff_ip coeff_atm coeff_bkg st) =
         call (model_of st ob) pixel rv coeff_norm coeff_wave coeff_ip coeff_atm coeff_bkg"
proof -
  obtain st' r where s: "spec_gas_st ob coeff_atm st = (st', r)"
    by (cases "spec_gas_st ob coeff_atm st")
  have m: "model_of st' ob = model_of st ob"
    using spec_gas_st_frame [of st ob coeff_atm] s assms by (simp add: model_of_unchanged)
  show ?thesis
    using spec_gas_st_value [OF assms, of coeff_atm] s m
    by (cases r) (simp_all add: call_st_def call_def Sj_eff_of_def)
qed

lemma S_model_st_frame: "unchanged st (fst (S_model_st ob g x params st))"
proof -
  obtain rvs nrm wave ip atm bkg where a: "assemble g params = (rvs, nrm, wave, ip, atm, bkg)"
    by (cases "assemble g params")
  show ?thesis
  proof (cases rvs)
    case Nil
    obtain st' r where s: "spec_gas_st ob bkg st = (st', r)"
      by (cases "spec_gas_st ob bkg st")
    then have "unchanged st st'"
      using spec_gas_st_frame [of st ob bkg] by simp
    then show ?thesis
      using Nil a s by (cases r) (simp_all add: S_model_st_def)
  next
    case (Cons rv rest)
    then show ?thesis
      using call_st_frame [of st ob x rv nrm wave ip atm bkg]
      by (cases rest) (simp_all add: S_model_st_def a unchanged_refl)
  qed
qed

lemma S_model_st_value:
  assumes "allocated st ob"
  shows "snd (S_model_st ob g x params st) = S_model (model_of st ob) g x params"
proof -
  obtain rvs nrm wave ip atm bkg where a: "assemble g params = (rvs, nrm, wave, ip, atm, bkg)"
    by (cases "assemble g params")
  show ?thesis
  proof (cases rvs)
    case Nil
    obtain st' r where s: "spec_gas_st ob bkg st = (st', r)"
      by (cases "spec_gas_st ob bkg st")
    have "st' ! o_vk ob = st ! o_vk ob"
      using spec_gas_st_frame [of st ob bkg] s assms
      by (simp add: unchanged_nth allocated_def)
    then show ?thesis
      using spec_gas_st_value [OF assms, of bkg] s Nil a
      by (cases r) (simp_all add: S_model_st_def S_model_def model_of_def)
  next
    case (Cons rv rest)
    then show ?thesis
      using call_st_value [OF assms, of x rv nrm wave ip atm bkg]
      by (cases rest) (simp_all add: S_model_st_def S_model_def a)
  qed
qed

lemma run_solver_frame:
  assumes "\<And>params st. unchanged st (fst (f params st))"
  shows "unchanged st0 st \<Longrightarrow> unchanged st0 (fst (run_solver n strat f hist st))"
proof (induction n arbitrary: hist st)
  case 0
  then show ?case by simp
next
  case (Suc n)
  show ?case
  proof (cases "strat hist")
    case (Evaluate params)
    obtain st' r where f: "f params st = (st', r)" by (cases "f params st")
    then have u: "unchanged st0 st'"
      using assms [of st params] Suc.prems unchanged_trans by fastforce
    show ?thesis
      using Evaluate f u Suc.IH [OF u] by (cases r) simp_all
  next
    case (Return p e)
    then show ?thesis using Suc.prems by simp
  next
    case (Raise e)
    then show ?thesis using Suc.prems by simp
  qed
qed

lemma fit_st_frame:
  "unchanged st (fst (fit_st fuel strat ob pixel spec_obs g st))"
proof -
  have "unchanged st (fst (run_solver fuel (strat pixel spec_obs (p0 g) (sig g))
             (S_model_st ob g pixel) [] st))"
    by (rule run_solver_frame [OF S_model_st_frame unchanged_refl])
  then show ?thesis
    by (auto simp: fit_st_def split: prod.splits option.splits sum.splits)
qed

lemma base_same_model: "same_model ob (fst (base ob x degk sig_k))"
  by (auto simp: base_def same_model_def Let_def split: option.splits sum.splits)

lemma base_sets_x: "bnd_x (fst (base ob x degk sig_k)) = x"
  by (auto simp: base_def Let_def split: option.splits sum.splits)

lemma same_model_refl: "same_model ob ob"
  by (simp add: same_model_def)

lemma run_base_frame:
  "same_model ob (fst (run_base ob kw))"
  "\<not> given kw \<Longrightarrow> fst (run_base ob kw) = ob"
  "given kw \<Longrightarrow> bnd_x (fst (run_base ob kw)) = kw_x kw"
  by (simp_all add: run_base_def base_same_model base_sets_x same_model_refl)

lemma Axk_fst: "fst (Axk ob v kw) = fst (run_base ob kw)"
  by (auto simp: Axk_def split: prod.splits sum.splits)

lemma fit_bnd_fst: "fst (fit_bnd lstsq ob f v kw) = fst (run_base ob kw)"
  using Axk_fst [of ob v kw] by (auto simp: fit_bnd_def split: prod.splits)

lemma call_bnd_fst: "fst (call_bnd ob x v ak kw) = fst (run_base ob kw)"
  using Axk_fst [of ob v kw] by (auto simp: call_bnd_def split: prod.splits)

lemma example_obj_model: "model_of example_store example_obj = example_model"
  by (simp add: model_of_def example_store_def example_obj_def example_model_def
      py_slice_def py_index_def)

lemma example_allocated: "allocated example_store example_obj"
  by (simp add: allocated_def example_store_def example_obj_def)

lemma example_base:
  "base example_bnd (Some [1]) 3 1 =
     (example_bnd\<lparr>bnd_x := Some [1], bnd_bnd := Some [[- 1, 0, 1]],
        bnd_BBxjl := Some [[[exp (- ((3 - 1.4) ^ 2)), exp (- ((3 - 0.7) ^ 2)), exp (- (3 ^ 2)),
                              exp (- ((3 + 0.7) ^ 2)), exp (- ((3 + 1.4) ^ 2))],
                             [exp (- ((- 1.4) ^ 2)), exp (- ((- 0.7) ^ 2)), exp (- (0 ^ 2)),
                              exp (- (0.7 ^ 2)), exp (- (1.4 ^ 2))],
                             [exp (- ((1 - 1.4) ^ 2)), exp (- ((1 - 0.7) ^ 2)), exp (- (1 ^ 2)),
                              exp (- ((1 + 0.7) ^ 2)), exp (- ((1 + 1.4) ^ 2))]]],
        bnd_Bxk := Some [[1, 0, 0]]\<rparr>, Inr ())"
  by (simp add: base_def example_bnd_def poly_def flog_def fin_def np_interp_def interp1_def
      astype_int_def arange_def take_indices_def take_index_def fdiv_def
      upt_rec [of 0] upt_rec [of 1] upt_rec [of 2] upt_rec [of 3]
      upt_rec [of "Suc 0"] upt_rec [of "Suc (Suc 0)"] numeral_3_eq_3
      upto_rec1 [of "- 1"] upto_rec1 [of 0] upto_rec1 [of 1] Let_def)


section \<open>The kernels are normalised\<close>

text \<open>
  C1. Each of the six kernel functions (Gaussian \<open>IP\<close>, super-Gaussian \<open>IP_sg\<close>,
  asymmetric \<open>IP_ag\<close>, bi-Gaussian \<open>IP_bg\<close>, multi-central \<open>IP_mcg\<close>,
  Gaussian spline \<open>IP_mg\<close>), for any grid and any shape parameters for which the array
  before normalisation has a sum that is a non-zero number, returns an array as long as the
  velocity grid whose elements sum to 1. Doubles are idealised as reals, so the sum is
  exactly 1.
\<close>

theorem kernels_unit_sum:
  "(\<forall>xs. IP_raw vk s = Some xs \<and> sum_list xs \<noteq> 0 \<longrightarrow>
      (\<exists>k. IP vk s = Some k \<and> length k = length vk \<and> sum_list k = 1)) \<and>
   (\<forall>xs. IP_sg_raw vk s e = Some xs \<and> sum_list xs \<noteq> 0 \<longrightarrow>
      (\<exists>k. IP_sg vk s e = Some k \<and> length k = length vk \<and> sum_list k = 1)) \<and>
   (\<forall>xs. IP_ag_raw vk s a = Some xs \<and> sum_list xs \<noteq> 0 \<longrightarrow>
      (\<exists>k. IP_ag vk s a = Some k \<and> length k = length vk \<and> sum_list k = 1)) \<and>
   (\<forall>xs. IP_bg_raw vk s1 s2 = Some xs \<and> sum_list xs \<noteq> 0 \<longrightarrow>
      (\<exists>k. IP_bg vk s1 s2 = Some k \<and> length k = length vk \<and> sum_list k = 1)) \<and>
   (\<forall>xs. IP_mcg_raw vk s0 a1 = Some xs \<and> sum_list xs \<noteq> 0 \<longrightarrow>
      (\<exists>k. IP_mcg vk s0 a1 = Some k \<and> length k = length vk \<and> sum_list k = 1)) \<and>
   (\<forall>xs. IP_mg_raw vk as = Some xs \<and> sum_list xs \<noteq> 0 \<longrightarrow>
      (\<exists>k. IP_mg vk as = Some k \<and> length k = length vk \<and> sum_list k = 1))"
proof -
  have g: "length xs = length vk" if "IP_raw vk s = Some xs" for xs
    using that by (auto simp: IP_raw_def vdiv_eq split: if_splits bind_splits)
  have sg: "length xs = length vk" if "IP_sg_raw vk s e = Some xs" for xs
    using that
    by (auto simp: IP_sg_raw_def vpow_def dest!: vdiv_length those_length split: bind_splits)
  have ag: "length xs = length vk" if "IP_ag_raw vk s a = Some xs" for xs
    using that by (auto simp: IP_ag_raw_def Let_def dest!: vdiv_length split: bind_splits)
  have bg: "length xs = length vk" if "IP_bg_raw vk s1 s2 = Some xs" for xs
    using that by (auto simp: IP_bg_raw_def Let_def dest!: those_length split: bind_splits)
  have mcg: "length xs = length vk" if "IP_mcg_raw vk s0 a1 = Some xs" for xs
    using that by (auto simp: IP_mcg_raw_def Let_def dest!: vdiv_length split: bind_splits)
  have mg: "length xs = length vk" if "IP_mg_raw vk as = Some xs" for xs
    using that by (auto simp: IP_mg_raw_def Let_def split: bind_splits)
  show ?thesis
    using g sg ag bg mcg mg normalise_unit_sum
    unfolding IP_def IP_sg_def IP_ag_def IP_bg_def IP_mcg_def IP_mg_def
    by (intro conjI allI impI; fastforce)
qed

theorem kernels_unit_sum_witness:
  "(\<exists>k. IP [- 1, 0, 1] 2 = Some k \<and> length k = 3 \<and> sum_list k = 1) \<and>
   (\<exists>k. IP_sg [- 1, 0, 1] 2 2 = Some k \<and> length k = 3 \<and> sum_list k = 1) \<and>
   (\<exists>k. IP_ag [- 1, 0, 1] 2 0 = Some k \<and> length k = 3 \<and> sum_list k = 1) \<and>
   (\<exists>k. IP_bg [- 1, 0, 1] 2 2 = Some k \<and> length k = 3 \<and> sum_list k = 1) \<and>
   (\<exists>k. IP_mcg [- 1, 0, 1] 2 1 = Some k \<and> length k = 3 \<and> sum_list k = 1) \<and>
   (\<exists>k. IP_mg [- 1, 0, 1] [0] = Some k \<and> length k = 3 \<and> sum_list k = 1)"
proof -
  let ?vk = "[- 1, 0, 1] :: real list"
  note pos = add_pos_pos less_imp_neq[THEN not_sym]
  obtain g where g: "IP_raw ?vk 2 = Some g" "sum_list g \<noteq> 0"
    by (simp add: IP_raw_def vdiv_eq pos)
  obtain sg where sg: "IP_sg_raw ?vk 2 2 = Some sg" "sum_list sg \<noteq> 0"
    by (simp add: IP_sg_raw_def vdiv_eq vpow_def fpow_def pos)
  obtain ag where ag: "IP_ag_raw ?vk 2 0 = Some ag" "sum_list ag \<noteq> 0"
    by (simp add: IP_ag_raw_def vdiv_eq fsqrt_def fdiv_def erf_0 pos)
  obtain bg where bg: "IP_bg_raw ?vk 2 2 = Some bg" "sum_list bg \<noteq> 0"
    by (simp add: IP_bg_raw_def fdiv_def pos)
  obtain mcg where mcg: "IP_mcg_raw ?vk 2 1 = Some mcg" "sum_list mcg \<noteq> 0"
    by (simp add: IP_mcg_raw_def vdiv_eq pos)
  obtain mg where mg: "IP_mg_raw ?vk [0] = Some mg" "sum_list mg \<noteq> 0"
    by (simp add: IP_mg_raw_def fdiv_def dot_def pos)
  show ?thesis
    using kernels_unit_sum [of ?vk 2 2 0 2 2 2 1 "[0]"] g sg ag bg mcg mg
    by (simp add: eval_nat_numeral)
qed

text \<open>
  C8. With asymmetry parameter 0 the asymmetric Gaussian kernel is the plain Gaussian
  kernel of the same width, on every velocity grid and for every width (both have no value
  when the width is 0 and the grid is not empty).
\<close>

theorem IP_ag_zero_asymmetry: "IP_ag vk s 0 = IP vk s"
  by (simp add: IP_ag_def IP_def IP_ag_raw_def IP_raw_def fsqrt_def fdiv_def erf_0)


section \<open>The absorber block of the evaluator\<close>





text \<open>
  C10. When fewer absorber coefficients than templates are passed (and every template is
  as long as the cell spectrum), the absorber block raises no exception; only the first
  \<open>length coeff_atm\<close> templates are multiplied into the combined spectrum, with no
  interpolation, that is, no shift; and the templates after them are ignored: the
  evaluator returns what it returns on the model that has only the first
  \<open>length coeff_atm\<close> templates.
\<close>

theorem fewer_coefficients:
  assumes wf: "\<forall>f \<in> set (self_fluxes_molec m). length f = length (self_spec_cell_j m)"
    and few: "length coeff_atm < length (self_fluxes_molec m)"
  shows "\<not> raises (spec_gas_of m coeff_atm) \<and>
         spec_gas_of m coeff_atm =
           bind_r (absorb (replicate (length (self_spec_cell_j m)) 1)
                     (zip coeff_atm (take (length coeff_atm) (self_fluxes_molec m))))
             (np_imul (self_spec_cell_j m)) \<and>
         call m pixel rv coeff_norm coeff_wave coeff_ip coeff_atm coeff_bkg =
           call (m\<lparr>self_fluxes_molec := take (length coeff_atm) (self_fluxes_molec m)\<rparr>)
             pixel rv coeff_norm coeff_wave coeff_ip coeff_atm coeff_bkg"
proof -
  let ?L = "length (self_spec_cell_j m)"
  let ?ps = "zip coeff_atm (take (length coeff_atm) (self_fluxes_molec m))"
  note eq = spec_gas_truncate [OF wf few]
  have "\<forall>p \<in> set ?ps. length (snd p) = ?L"
    using wf by (auto dest!: set_zip_rightD in_set_takeD)
  then have "absorb (replicate ?L 1) ?ps = Inl NonFinite \<or>
             (\<exists>r. absorb (replicate ?L 1) ?ps = Inr r \<and> length r = ?L)"
    by (intro absorb_shape) simp_all
  then have "\<not> raises (spec_gas_of m coeff_atm)"
    unfolding eq(2) by (auto simp: raises_def np_imul_def)
  moreover have "call m pixel rv coeff_norm coeff_wave coeff_ip coeff_atm coeff_bkg =
           call (m\<lparr>self_fluxes_molec := take (length coeff_atm) (self_fluxes_molec m)\<rparr>)
             pixel rv coeff_norm coeff_wave coeff_ip coeff_atm coeff_bkg"
    unfolding call_def Sj_eff_of_def eq(1) by (simp add: convolved_def sampled_def)
  ultimately show ?thesis
    using eq(2) by simp
qed

theorem fewer_coefficients_witness:
  "map length (self_fluxes_molec example_model) = [4, 4] \<and>
   length (self_spec_cell_j example_model) = 4 \<and>
   length [2::real] < length (self_fluxes_molec example_model) \<and>
   \<not> raises (spec_gas_of example_model [2]) \<and>
   spec_gas_of example_model [2] =
     bind_r (absorb [1, 1, 1, 1] [(2, [1, 1 / 2, 1, 1])]) (np_imul [1, 1, 1, 1]) \<and>
   call example_model [0] 0 [1] [1] [1] [2] [0] =
     call (example_model\<lparr>self_fluxes_molec := [[1, 1 / 2, 1, 1]]\<rparr>) [0] 0 [1] [1] [1] [2] [0]"
proof -
  have wf: "\<forall>f \<in> set (self_fluxes_molec example_model).
              length f = length (self_spec_cell_j example_model)"
    by (simp add: example_fields)
  have few: "length [2::real] < length (self_fluxes_molec example_model)"
    by (simp add: example_fields)
  note T = fewer_coefficients [OF wf few, of "[0]" 0 "[1]" "[1]" "[1]" "[0]"]
  have r: "\<not> raises (spec_gas_of example_model [2])"
    using T by blast
  have e: "spec_gas_of example_model [2] =
     bind_r (absorb [1, 1, 1, 1] [(2, [1, 1 / 2, 1, 1])]) (np_imul [1, 1, 1, 1])"
    using T [THEN conjunct2, THEN conjunct1] by (simp add: example_fields eval_nat_numeral)
  have c: "call example_model [0] 0 [1] [1] [1] [2] [0] =
     call (example_model\<lparr>self_fluxes_molec := [[1, 1 / 2, 1, 1]]\<rparr>) [0] 0 [1] [1] [1] [2] [0]"
    using T [THEN conjunct2, THEN conjunct2] by (simp add: example_fields)
  have "map length (self_fluxes_molec example_model) = [4, 4]"
    "length (self_spec_cell_j example_model) = 4"
    by (simp_all add: example_fields)
  then show ?thesis
    using few r e c by blast
qed


section \<open>The convolution step and the effective grid\<close>

text \<open>
  C2. The claim is that for every model whose grid has length \<open>N > 2 * IP_hs + 1\<close> the
  convolution step returns \<open>N - 2 * IP_hs\<close> values, as many as the effective grid
  \<^verbatim>\<open>lnwave_j[IP_hs:-IP_hs]\<close> has. Evaluated at \<open>IP_hs = 0\<close> on a grid of two knots:
  the convolution returns two values, but the slice \<^verbatim>\<open>lnwave_j[0:-0]\<close> is empty, and the
  evaluator raises \<open>ValueError\<close> when it interpolates on the empty grid.
  The lemmas \<open>eff_grid_length\<close> and \<open>Sj_eff_length\<close> above show that the two lengths
  agree whenever \<open>IP_hs\<close> is at least 1.
\<close>

theorem eff_grid_IP_hs_zero:
  "\<exists>m. init flat_template [0, 1] [1, 1] [] IP_callable poly_callable 0 0 = Inr m \<and>
       self_IP_hs m = 0 \<and> length (self_lnwave_j m) = 2 \<and>
       Sj_eff_of m 0 [1] [] [0] = Inr [1, 1] \<and>
       self_lnwave_j_eff m = [] \<and>
       call m [0] 0 [1] [1] [1] [] [0] = Inl ValueError"
  by (simp add: init_def arange_def py_slice_def py_index_def call_def Sj_eff_of_def
      convolved_def sampled_def spec_gas_of_def IP_callable_def IP_single fin_def flat_template_def index0_def
      np_mul_def np_convolve_valid_def dot_def poly_def flog_def np_interp_def
      upt_rec [of 0] upt_rec [of 1])


section \<open>The parameter vector of the fit\<close>




section \<open>Failed chunks and the aggregate\<close>

text \<open>
  C4, as claimed: a chunk whose fit fails, by raising or by a covariance that is not
  finite, gets the RV not-a-number, the other chunks are still processed, and with one
  failed and one valid chunk (RV 3.0) the aggregate RV is 3.0. The loop has no exception
  handler and assigns no not-a-number: when the fit of the first of two chunks raises
  \<open>RuntimeError\<close>, the run ends with that exception and reports no aggregate; and
  a chunk whose error is not finite keeps the RV its fit returned (7 below).
\<close>

theorem failed_chunk_counterexample:
  "viper_main raising_fit_chunk [18, 19] = Inl RuntimeError \<and>
   chunk_loop scenario_fit_chunk [18, 19] = Inr ([Some 7, Some 3], [None, Some (1 / 5)])"
  by (simp add: viper_main_def raising_fit_chunk_def scenario_fit_chunk_def)

text \<open>
  C4, amended. When no chunk raises, every chunk is processed and keeps the RV and error
  its fit returned; the chunks whose error is not finite are left out of the aggregate by
  the mask \<^verbatim>\<open>np.isfinite(e_rv)\<close>; the aggregate RV is the mean of the remaining RVs and
  its error is their standard deviation divided by the square root of their number minus
  one (so it is not a number when fewer than two remain). When the fit of a chunk raises,
  the run ends with an exception and reports no aggregate. In the scenario of two chunks,
  one with an error that is not finite and one valid with RV 3.0, the aggregate RV is 3.0.
\<close>

theorem aggregate_valid_chunks:
  "((\<forall>ord \<in> set orders. fit_order ord = Inr (res ord)) \<longrightarrow>
      chunk_loop fit_order orders = Inr (map (fst \<circ> res) orders, map (snd \<circ> res) orders) \<and>
      viper_main fit_order orders =
        Inr (let valid = map (fst \<circ> res) (filter (\<lambda>ord. np_isfinite (snd (res ord))) orders)
             in (np_mean valid,
                 do { sd \<leftarrow> np_std valid;
                      d \<leftarrow> fsqrt (real_of_int (int (length valid) - 1));
                      fdiv sd d }))) \<and>
   ((\<exists>ord \<in> set orders. \<exists>e. fit_order ord = Inl e) \<longrightarrow>
      (\<exists>e. viper_main fit_order orders = Inl e)) \<and>
   (ws \<noteq> [] \<longrightarrow> np_mean (map Some ws) = Some (sum_list ws / real (length ws))) \<and>
   (2 \<le> length ws \<longrightarrow>
      do { sd \<leftarrow> np_std (map Some ws);
           d \<leftarrow> fsqrt (real_of_int (int (length (map Some ws)) - 1));
           fdiv sd d } =
      Some (sqrt (sum_list (map (\<lambda>w. (w - sum_list ws / real (length ws)) ^ 2) ws)
                    / real (length ws))
            / sqrt (real (length ws) - 1)))"
proof (intro conjI impI)
  assume a: "\<forall>ord \<in> set orders. fit_order ord = Inr (res ord)"
  show "chunk_loop fit_order orders = Inr (map (fst \<circ> res) orders, map (snd \<circ> res) orders)"
    by (rule chunk_loop_all [OF a])
  show "viper_main fit_order orders =
        Inr (let valid = map (fst \<circ> res) (filter (\<lambda>ord. np_isfinite (snd (res ord))) orders)
             in (np_mean valid,
                 do { sd \<leftarrow> np_std valid;
                      d \<leftarrow> fsqrt (real_of_int (int (length valid) - 1));
                      fdiv sd d }))"
    unfolding viper_main_def chunk_loop_all [OF a]
    using select_valid [where f = "fst \<circ> res" and g = "snd \<circ> res" and xs = orders]
      count_valid [where g = "snd \<circ> res" and xs = orders]
    by (simp add: aggregate_def Let_def)
next
  assume "\<exists>ord \<in> set orders. \<exists>e. fit_order ord = Inl e"
  then obtain e' where "chunk_loop fit_order orders = Inl e'"
    using chunk_loop_raise by blast
  then show "\<exists>e. viper_main fit_order orders = Inl e"
    by (simp add: viper_main_def)
next
  assume "ws \<noteq> []"
  then show "np_mean (map Some ws) = Some (sum_list ws / real (length ws))"
    by (rule np_mean_finite)
next
  assume 2: "2 \<le> length ws"
  then have "ws \<noteq> []" by auto
  then show "do { sd \<leftarrow> np_std (map Some ws);
           d \<leftarrow> fsqrt (real_of_int (int (length (map Some ws)) - 1));
           fdiv sd d } =
      Some (sqrt (sum_list (map (\<lambda>w. (w - sum_list ws / real (length ws)) ^ 2) ws)
                    / real (length ws))
            / sqrt (real (length ws) - 1))"
    using 2 by (simp add: np_std_finite fsqrt_def fdiv_def)
qed

theorem aggregate_valid_chunks_witness:
  "viper_main scenario_fit_chunk [18, 19] = Inr (Some 3, None) \<and>
   (\<exists>e. viper_main raising_fit_chunk [18, 19] = Inl e) \<and>
   np_mean [Some 3] = Some 3 \<and>
   do { sd \<leftarrow> np_std [Some 1, Some 3];
        d \<leftarrow> fsqrt (real_of_int (int (length [Some 1, Some (3::real)]) - 1));
        fdiv sd d } = Some 1"
proof -
  define res :: "int \<Rightarrow> real option \<times> real option"
    where "res ord = (if ord = 18 then (Some 7, None) else (Some 3, Some (1 / 5)))" for ord
  have a: "\<forall>ord \<in> set [18, 19]. scenario_fit_chunk ord = Inr (res ord)"
    by (simp add: scenario_fit_chunk_def res_def)
  have b: "\<exists>ord \<in> set [18, 19]. \<exists>e. raising_fit_chunk ord = Inl e"
    by (simp add: raising_fit_chunk_def)
  have v: "map (fst \<circ> res) (filter (\<lambda>ord. np_isfinite (snd (res ord))) [18, 19]) = [Some 3]"
    by (simp add: res_def np_isfinite_def)
  have m: "np_mean [Some 3] = Some 3"
    using aggregate_valid_chunks [of "[18, 19]" scenario_fit_chunk res "[3]"] by simp
  have s: "np_std [Some 3] = Some 0"
    by (simp add: np_std_def m fdiv_def fsqrt_def)
  have 1: "viper_main scenario_fit_chunk [18, 19] = Inr (Some 3, None)"
    using aggregate_valid_chunks [of "[18, 19]" scenario_fit_chunk res "[3]"] a
    unfolding v Let_def by (simp add: m s fdiv_def fsqrt_def)
  have 2: "\<exists>e. viper_main raising_fit_chunk [18, 19] = Inl e"
    using aggregate_valid_chunks [of "[18, 19]" raising_fit_chunk res "[3]"] b by blast
  have 4: "do { sd \<leftarrow> np_std [Some 1, Some 3];
        d \<leftarrow> fsqrt (real_of_int (int (length [Some 1, Some (3::real)]) - 1));
        fdiv sd d } = Some 1"
    using aggregate_valid_chunks [of "[18, 19]" scenario_fit_chunk res "[1, 3]"] by simp
  show ?thesis using 1 2 m 4 by blast
qed


section \<open>The staged refinement\<close>





section \<open>What an evaluation leaves unchanged\<close>

text \<open>
  C9, as claimed: every evaluation, also \<^verbatim>\<open>Axk\<close> and \<^verbatim>\<open>fit\<close> of the band-limited
  variant, leaves every attribute of the model object and every cached array unchanged.
  \<^verbatim>\<open>Axk\<close> called with a keyword argument runs \<^verbatim>\<open>base\<close> first, which assigns the
  cached arrays: on an object on which \<open>base\<close> has not run yet, the call with
  \<^verbatim>\<open>x=[1]\<close> returns a result and leaves the object with \<open>x\<close>, \<open>bnd\<close>, \<open>BBxjl\<close> and
  \<open>Bxk\<close> set.
\<close>

theorem cached_arrays_counterexample:
  "fst (Axk example_bnd 0 example_kwargs) \<noteq> example_bnd \<and>
   bnd_x example_bnd = None \<and>
   bnd_x (fst (Axk example_bnd 0 example_kwargs)) = Some [1] \<and>
   bnd_bnd (fst (Axk example_bnd 0 example_kwargs)) = Some [[- 1, 0, 1]] \<and>
   bnd_Bxk (fst (Axk example_bnd 0 example_kwargs)) = Some [[1, 0, 0]] \<and>
   (\<exists>r. snd (Axk example_bnd 0 example_kwargs) = Inr r)"
proof -
  have g: "given example_kwargs"
    by (simp add: given_def example_kwargs_def)
  have rb: "run_base example_bnd example_kwargs = base example_bnd (Some [1]) 3 1"
    using g by (simp add: run_base_def example_kwargs_def)
  have f: "fst (Axk example_bnd 0 example_kwargs) = fst (base example_bnd (Some [1]) 3 1)"
    by (simp add: Axk_fst rb)
  have x: "bnd_x example_bnd = None"
    by (simp add: example_bnd_def)
  have r: "\<exists>r. snd (Axk example_bnd 0 example_kwargs) = Inr r"
    unfolding Axk_def rb example_base
    by (simp add: example_bnd_def flat_template_def np_mul_def take_indices_def take_index_def
        einsum_def)
  have "bnd_x (fst (Axk example_bnd 0 example_kwargs)) = Some [1]"
    "bnd_bnd (fst (Axk example_bnd 0 example_kwargs)) = Some [[- 1, 0, 1]]"
    "bnd_Bxk (fst (Axk example_bnd 0 example_kwargs)) = Some [[1, 0, 0]]"
    unfolding f example_base by simp_all
  then show ?thesis
    using x r by auto
qed

text \<open>
  C9, amended. \<^verbatim>\<open>model.__call__\<close> and \<^verbatim>\<open>model.fit\<close> leave every array that
  exists before the call as it is, whatever the arguments, and assign no attribute: the
  arrays they write to in place are arrays they have created. So the values of all
  attributes of the model object are the same after the call (and the value returned is
  that of the evaluator \<open>call\<close> on these values). \<^verbatim>\<open>Axk\<close>, \<^verbatim>\<open>fit\<close> and
  \<^verbatim>\<open>__call__\<close> of the band-limited variant leave the object unchanged when they are
  called without keyword arguments; called with keyword arguments they run \<^verbatim>\<open>base\<close>,
  which may assign the cached \<open>x\<close>, \<open>bnd\<close>, \<open>BBxjl\<close> and \<open>Bxk\<close>, and they leave every
  other attribute (template, grid, \<open>dx\<close>, \<open>vk\<close>, \<open>IP\<close>, \<open>IP_hs\<close>) unchanged.
\<close>

theorem evaluation_frame:
  "unchanged st (fst (call_st ob pixel rv coeff_norm coeff_wave coeff_ip coeff_atm coeff_bkg st)) \<and>
   unchanged st (fst (fit_st fuel strat ob pixel spec_obs g st)) \<and>
   (allocated st ob \<longrightarrow>
      model_of (fst (call_st ob pixel rv coeff_norm coeff_wave coeff_ip coeff_atm coeff_bkg st)) ob
        = model_of st ob \<and>
      model_of (fst (fit_st fuel strat ob pixel spec_obs g st)) ob = model_of st ob \<and>
      snd (call_st ob pixel rv coeff_norm coeff_wave coeff_ip coeff_atm coeff_bkg st)
        = call (model_of st ob) pixel rv coeff_norm coeff_wave coeff_ip coeff_atm coeff_bkg) \<and>
   (\<not> given kw \<longrightarrow>
      fst (Axk b v kw) = b \<and> fst (fit_bnd lstsq b f v kw) = b \<and> fst (call_bnd b x v ak kw) = b) \<and>
   same_model b (fst (Axk b v kw)) \<and>
   same_model b (fst (fit_bnd lstsq b f v kw)) \<and>
   same_model b (fst (call_bnd b x v ak kw))"
  using call_st_frame [of st ob pixel rv coeff_norm coeff_wave coeff_ip coeff_atm coeff_bkg]
    fit_st_frame [of st fuel strat ob pixel spec_obs g]
    call_st_value [of st ob pixel rv coeff_norm coeff_wave coeff_ip coeff_atm coeff_bkg]
    run_base_frame [where ob = b and kw = kw]
  by (simp add: model_of_unchanged Axk_fst fit_bnd_fst call_bnd_fst)

theorem evaluation_frame_witness:
  "allocated example_store example_obj \<and>
   model_of example_store example_obj = example_model \<and>
   model_of (fst (call_st example_obj [0] 0 [1] [1] [1] [2, 3] [0] example_store)) example_obj
     = example_model \<and>
   snd (call_st example_obj [0] 0 [1] [1] [1] [2, 3] [0] example_store)
     = call example_model [0] 0 [1] [1] [1] [2, 3] [0] \<and>
   \<not> given no_kwargs \<and>
   fst (Axk example_bnd 0 no_kwargs) = example_bnd"
proof -
  have n: "\<not> given no_kwargs"
    by (simp add: given_def no_kwargs_def)
  show ?thesis
    using evaluation_frame [of example_store example_obj "[0]" 0 "[1]" "[1]" "[1]" "[2, 3]" "[0]"
        0 "\<lambda>_ _ _ _ _. Raise RuntimeError" "[]" example_fit_args no_kwargs example_bnd 0
        "\<lambda>_ _. Inr ()" "[]" "[]" "[]"]
      example_allocated n
    by (simp add: example_obj_model)
qed

end
